theory Spec2Isabelle
  imports Main "HOL-Library.Word"
begin

section \<open>Machine types and vectors\<close>

text \<open>
  \<open>idx_t\<close> and \<open>transaction_t\<close> are unsigned 64-bit integers, \<open>row_t\<close> is a signed
  64-bit integer (read with \<open>sint\<close>); arithmetic on all of them wraps modulo \<open>2 ^ 64\<close>.
  Pointers are addresses; a pointer that may be null is an \<open>option\<close>.
\<close>

type_synonym idx_t = "64 word"
type_synonym transaction_t = "64 word"
type_synonym row_t = "64 word"
type_synonym block_id_t = "64 word"
type_synonym ptr = nat
type_synonym LogicalType = string

text \<open>
  Modelled from the spec: the constant \<open>STANDARD_VECTOR_SIZE\<close> is declared outside the
  sources at hand; the spec's row batches hold 1024 rows.
\<close>

definition STANDARD_VECTOR_SIZE :: nat where
  "STANDARD_VECTOR_SIZE = 1024"

definition LOGICAL_ROW_TYPE :: LogicalType where
  "LOGICAL_ROW_TYPE = ''BIGINT''"

datatype Value = BIGINT "64 word" | VARCHAR string

text \<open>A flat vector: one cell per row of a batch; \<open>None\<close> is a cell never written.\<close>

type_synonym Vector = "Value option list"

record DataChunk =
  chunk_data :: "Vector list"
  chunk_count :: nat

definition Initialize :: "LogicalType list \<Rightarrow> DataChunk" where
  "Initialize types =
     \<lparr>chunk_data = map (\<lambda>_. replicate STANDARD_VECTOR_SIZE None) types, chunk_count = 0\<rparr>"

definition SetCardinality :: "nat \<Rightarrow> DataChunk \<Rightarrow> DataChunk" where
  "SetCardinality n c = c\<lparr>chunk_count := n\<rparr>"

text \<open>
  \<open>DataChunk::Slice(sel, n)\<close>: row \<open>i\<close> of the sliced chunk is row \<open>sel[i]\<close> of the
  chunk, for \<open>i < n\<close>.
\<close>

definition Slice :: "nat list \<Rightarrow> nat \<Rightarrow> DataChunk \<Rightarrow> DataChunk" where
  "Slice sel n c =
     \<lparr>chunk_data = map (\<lambda>v. map (\<lambda>i. v ! (sel ! i)) [0..<n]) (chunk_data c), chunk_count = n\<rparr>"

datatype error =
    NotImplementedException string
  | AssertionFailed string
  | NullDereference

section \<open>Column segments (transient\_segment.cpp)\<close>

record SegmentStatistics =
  stats_min :: "Value option"
  stats_max :: "Value option"
  stats_has_null :: bool

text \<open>The data block behind a segment: \<open>data->tuple_count\<close> and \<open>data->block->BlockId()\<close>.\<close>

record UncompressedSegment =
  tuple_count :: idx_t
  block :: block_id_t

record PersistentSegment =
  ps_db :: ptr
  ps_type :: LogicalType
  ps_start :: idx_t
  ps_count :: idx_t
  ps_stats :: SegmentStatistics
  ps_data :: UncompressedSegment
  ps_block_id :: block_id_t
  ps_next :: "ptr option"

record TransientSegment =
  ts_db :: ptr
  ts_type :: LogicalType
  ts_start :: idx_t
  ts_count :: idx_t
  ts_stats :: SegmentStatistics
  ts_data :: UncompressedSegment

text \<open>
  \<open>TransientSegment::TransientSegment(PersistentSegment &segment)\<close>. The source moves
  \<open>data\<close> and \<open>stats\<close> out of the persistent segment and copies \<open>count\<close>; the base
  constructor takes \<open>type\<close> and \<open>start\<close>. \<open>UncompressedSegment::ToTemporary\<close> is not
  in the sources and is a parameter. \<open>D_ASSERT(!segment.next)\<close> is the last statement.
\<close>

definition TransientSegment_of_persistent ::
    "(UncompressedSegment \<Rightarrow> UncompressedSegment) \<Rightarrow> PersistentSegment \<Rightarrow> error + TransientSegment" where
  "TransientSegment_of_persistent ToTemporary segment =
     (let data0 = (if ps_block_id segment = block (ps_data segment)
                   then ToTemporary (ps_data segment) else ps_data segment);
          this = \<lparr>ts_db = ps_db segment, ts_type = ps_type segment, ts_start = ps_start segment,
                  ts_count = ps_count segment, ts_stats = ps_stats segment, ts_data = data0\<rparr>
      in if ps_next segment \<noteq> None then Inl (AssertionFailed ''!segment.next'') else Inr this)"

text \<open>
  \<open>TransientSegment::FetchRow\<close>: \<open>row_id\<close> is a \<open>row_t\<close>, \<open>start\<close> an \<open>idx_t\<close>; the
  subtraction is done on 64-bit unsigned values. The fetch of the data block
  (\<open>data->FetchRow\<close>) is a parameter.
\<close>

definition FetchRow ::
    "(UncompressedSegment \<Rightarrow> 64 word \<Rightarrow> 'r) \<Rightarrow> TransientSegment \<Rightarrow> row_t \<Rightarrow> 'r" where
  "FetchRow data_FetchRow this row_id = data_FetchRow (ts_data this) (row_id - ts_start this)"

text \<open>
  \<open>TransientSegment::Append\<close>: the data block's \<open>Append\<close> (a parameter) updates the
  statistics and the block and returns how many rows it took.
\<close>

definition Append ::
    "(SegmentStatistics \<Rightarrow> UncompressedSegment \<Rightarrow> Vector \<Rightarrow> idx_t \<Rightarrow> idx_t
        \<Rightarrow> idx_t \<times> SegmentStatistics \<times> UncompressedSegment)
     \<Rightarrow> TransientSegment \<Rightarrow> Vector \<Rightarrow> idx_t \<Rightarrow> idx_t \<Rightarrow> idx_t \<times> TransientSegment" where
  "Append data_Append this append_data offset n =
     (case data_Append (ts_stats this) (ts_data this) append_data offset n of
        (appended, stats', data') \<Rightarrow>
          (appended, this\<lparr>ts_stats := stats', ts_data := data', ts_count := ts_count this + appended\<rparr>))"

definition RevertAppend :: "idx_t \<Rightarrow> TransientSegment \<Rightarrow> TransientSegment" where
  "RevertAppend start_row this =
     this\<lparr>ts_data := (ts_data this)\<lparr>tuple_count := start_row - ts_start this\<rparr>,
          ts_count := start_row - ts_start this\<rparr>"

section \<open>The objects the commit engine reaches (declared outside the sources)\<close>

text \<open>
  Modelled from the spec: the enumeration \<open>CatalogType\<close> is declared outside the
  sources. It has the enumerators that commit\_state.cpp names (schema, table, view,
  sequence, macro, the kinds that are not persisted, and the mark of a dropped entry);
  \<open>OTHER_CATALOG_TYPE\<close> stands for every other value of the enumeration.
\<close>

datatype CatalogType =
    TABLE_ENTRY | SCHEMA_ENTRY | VIEW_ENTRY | SEQUENCE_ENTRY | MACRO_ENTRY | DELETED_ENTRY
  | INDEX_ENTRY | PREPARED_STATEMENT | AGGREGATE_FUNCTION_ENTRY | SCALAR_FUNCTION_ENTRY
  | TABLE_FUNCTION_ENTRY | COPY_FUNCTION_ENTRY | PRAGMA_FUNCTION_ENTRY | COLLATION_ENTRY
  | OTHER_CATALOG_TYPE nat

text \<open>
  Modelled from the spec: \<open>CatalogEntry\<close> is declared outside the sources. The engine
  reads its address (its identity), \<open>type\<close>, \<open>name\<close>, \<open>temporary\<close>, \<open>set\<close> (the
  version-chain object that owns it) and \<open>parent\<close> (null is \<open>None\<close>).
\<close>

datatype CatalogEntry =
  CatalogEntry (entry_addr: ptr) (entry_type: CatalogType) (entry_name: string)
    (entry_temporary: bool) (entry_set: ptr) (entry_parent: "CatalogEntry option")

text \<open>
  \<open>AlterInfo::Deserialize\<close> is not in the sources: the deserialized info is kept as the
  bytes it is read from.
\<close>

datatype AlterInfo = AlterInfo "8 word list"

definition Deserialize :: "idx_t \<Rightarrow> 8 word list \<Rightarrow> AlterInfo" where
  "Deserialize extra_data_size extra_data = AlterInfo (take (unat extra_data_size) extra_data)"

text \<open>
  Modelled from the spec: \<open>DataTableInfo\<close> is declared outside the sources; it holds the
  schema and table names, the temporary/permanent flag that \<open>IsTemporary()\<close> returns, and
  the table's live row count.
\<close>

record DataTableInfo =
  info_schema :: string
  info_table :: string
  info_temporary :: bool
  info_cardinality :: idx_t

definition IsTemporary :: "DataTableInfo \<Rightarrow> bool" where
  "IsTemporary info = info_temporary info"

text \<open>
  Modelled from the spec: \<open>DataTable\<close>, \<open>AppendInfo\<close>, \<open>DeleteInfo\<close>,
  \<open>UpdateSegment\<close> and \<open>UpdateInfo\<close> are declared outside the sources; they carry the
  fields the engine reads, which are the contents the spec gives the undo-log entries
  (owning table, starting row and count; version-info block, base row, row offsets and
  count; update-chain entry, row-batch index, tuple offsets and count). A \<open>DataTable\<close>
  is its address and the address of its shared \<open>DataTableInfo\<close>.
\<close>

record DataTable =
  dt_addr :: ptr
  dt_info :: ptr

record AppendInfo =
  append_table :: DataTable
  append_start_row :: idx_t
  append_count :: idx_t

text \<open>
  \<open>DeleteInfo\<close>: \<open>vinfo\<close> is the address of the version-info block; \<open>rows\<close> holds
  \<open>count\<close> row offsets.
\<close>

record DeleteInfo =
  delete_table :: DataTable
  delete_vinfo :: ptr
  delete_count :: idx_t
  delete_base_row :: idx_t
  delete_rows :: "row_t list"

text \<open>\<open>ColumnData\<close> (column\_data.hpp): the fields the engine reads.\<close>

record ColumnData =
  column_table_info :: ptr
  column_type :: LogicalType
  column_idx :: idx_t

record UpdateSegment =
  useg_addr :: ptr
  useg_start :: idx_t
  useg_column_data :: ColumnData

text \<open>
  \<open>UpdateInfo\<close>: an update-chain entry. Its \<open>version_number\<close> is mutable and lives in
  the store, under the entry's address. \<open>tuples\<close> holds \<open>N\<close> offsets into the batch.
  Modelled from the spec: \<open>tuple_data\<close> holds the prior values the entry records for
  undo, one for each offset in \<open>tuples\<close>: the pre-image of the update. The engine does
  not read it.
\<close>

record UpdateInfo =
  update_addr :: ptr
  update_segment :: UpdateSegment
  update_vector_index :: idx_t
  update_N :: nat
  update_tuples :: "nat list"
  update_tuple_data :: "Value list"

text \<open>
  Modelled from the spec: the enumeration \<open>UndoFlags\<close> is declared outside the sources.
  It has the four kinds of undo-log entry (catalog change, row insertion, row deletion,
  row update); \<open>OTHER_FLAG\<close> stands for every other value of the enumeration.
\<close>

datatype UndoFlags = CATALOG_ENTRY | INSERT_TUPLE | DELETE_TUPLE | UPDATE_TUPLE | OTHER_FLAG nat

text \<open>
  An undo-log entry: the flag together with the payload the undo buffer stored under it
  (\<open>type\<close> and \<open>data\<close> of \<open>CommitEntry\<close>). A catalog change carries the entry and the
  bytes behind the entry pointer: a size and the serialized extra data.
\<close>

datatype undo_entry =
    CatalogChange CatalogEntry idx_t "8 word list"
  | RowInsertion AppendInfo
  | RowDeletion DeleteInfo
  | RowUpdate UpdateInfo
  | Unrecognized nat

fun undo_type :: "undo_entry \<Rightarrow> UndoFlags" where
  "undo_type (CatalogChange _ _ _) = CATALOG_ENTRY"
| "undo_type (RowInsertion _) = INSERT_TUPLE"
| "undo_type (RowDeletion _) = DELETE_TUPLE"
| "undo_type (RowUpdate _) = UPDATE_TUPLE"
| "undo_type (Unrecognized n) = OTHER_FLAG n"

section \<open>Effects: the calls on collaborators and the store\<close>

text \<open>
  Modelled from the spec: \<open>WriteAheadLog\<close> is declared outside the sources; these are
  the records it accepts, one for each of its methods the engine calls, with the
  argument of the call.
\<close>

datatype wal_record =
    WAL_WriteSetTable string string
  | WAL_WriteCreateTable ptr
  | WAL_WriteCreateSchema ptr
  | WAL_WriteCreateView ptr
  | WAL_WriteCreateSequence ptr
  | WAL_WriteCreateMacro ptr
  | WAL_WriteAlter AlterInfo
  | WAL_WriteDropTable ptr
  | WAL_WriteDropSchema ptr
  | WAL_WriteDropView ptr
  | WAL_WriteDropSequence ptr
  | WAL_WriteDropMacro ptr
  | WAL_WriteDelete DataChunk
  | WAL_WriteUpdate DataChunk idx_t

text \<open>
  Every call the engine makes on an object outside itself, in the order made: a record
  written to the log, and the calls on the table, version-info, catalog-set and
  table-entry objects with their receiver's address first.
\<close>

datatype event =
    Log wal_record
  | DataTable_WriteToLog ptr ptr idx_t idx_t
  | DataTable_CommitAppend ptr transaction_t idx_t idx_t
  | DataTable_RevertAppend ptr idx_t idx_t
  | ChunkInfo_CommitDelete ptr transaction_t "row_t list" idx_t
  | CatalogSet_UpdateTimestamp ptr ptr transaction_t
  | TableCatalogEntry_CommitAlter ptr AlterInfo
  | TableCatalogEntry_CommitDrop ptr

text \<open>
  The store: the trace of calls, the \<open>DataTableInfo\<close> objects by address, the
  \<open>version_number\<close> of every update-chain entry by address, and what
  \<open>UpdateSegment::FetchCommitted\<close> (not in the sources) makes of a result vector, by the
  segment's address and the batch index.
\<close>

record world =
  trace :: "event list"
  table_infos :: "ptr \<Rightarrow> DataTableInfo"
  version_number :: "ptr \<Rightarrow> transaction_t"
  FetchCommitted :: "ptr \<Rightarrow> idx_t \<Rightarrow> Vector \<Rightarrow> Vector"

definition emit :: "event \<Rightarrow> world \<Rightarrow> world" where
  "emit ev w = w\<lparr>trace := trace w @ [ev]\<rparr>"

section \<open>CommitState (commit\_state.cpp)\<close>

record CommitState =
  cs_log :: "ptr option"
  commit_id :: transaction_t
  current_table_info :: "ptr option"
  delete_chunk :: "DataChunk option"
  update_chunk :: "DataChunk option"

type_synonym state = "CommitState \<times> world"

text \<open>
  What a call leaves behind: the exception it raised, if any, and the state at that
  point. \<open>D_ASSERT\<close> is modelled as in a debug build, where a failed assertion ends the
  call; a dereference of a null pointer ends the call too.
\<close>

type_synonym outcome = "error option \<times> state"

definition CommitState_new :: "transaction_t \<Rightarrow> ptr option \<Rightarrow> CommitState" where
  "CommitState_new cid lg =
     \<lparr>cs_log = lg, commit_id = cid, current_table_info = None,
      delete_chunk = None, update_chunk = None\<rparr>"

text \<open>Sequencing: the next step runs only when nothing was raised.\<close>

definition and_then :: "outcome \<Rightarrow> (state \<Rightarrow> outcome) \<Rightarrow> outcome" where
  "and_then r f = (case r of (None, s) \<Rightarrow> f s | (Some e, s) \<Rightarrow> (Some e, s))"

text \<open>\<open>log->Write...(...)\<close>: a call through the log pointer.\<close>

definition log_write :: "wal_record \<Rightarrow> state \<Rightarrow> outcome" where
  "log_write r s =
     (case s of (cs, w) \<Rightarrow>
        (case cs_log cs of
           None \<Rightarrow> (Some NullDereference, s)
         | Some _ \<Rightarrow> (None, (cs, emit (Log r) w))))"

definition D_ASSERT :: "bool \<Rightarrow> string \<Rightarrow> state \<Rightarrow> outcome" where
  "D_ASSERT b what s = (if b then (None, s) else (Some (AssertionFailed what), s))"

definition SwitchTable :: "ptr \<Rightarrow> UndoFlags \<Rightarrow> state \<Rightarrow> outcome" where
  "SwitchTable table_info new_op s =
     (case s of (cs, w) \<Rightarrow>
        if current_table_info cs \<noteq> Some table_info then
          and_then
            (log_write (WAL_WriteSetTable (info_schema (table_infos w table_info))
                                          (info_table (table_infos w table_info))) s)
            (\<lambda>(cs', w'). (None, (cs'\<lparr>current_table_info := Some table_info\<rparr>, w')))
        else (None, s))"

text \<open>A call on a collaborator other than the log: it is recorded in the trace.\<close>

definition call :: "event \<Rightarrow> state \<Rightarrow> outcome" where
  "call ev s = (case s of (cs, w) \<Rightarrow> (None, (cs, emit ev w)))"

definition WriteCatalogEntry :: "CatalogEntry \<Rightarrow> idx_t \<Rightarrow> 8 word list \<Rightarrow> state \<Rightarrow> outcome" where
  "WriteCatalogEntry entry extra_data_size extra_data s =
     (if entry_temporary entry then (None, s)
      else case entry_parent entry of
        None \<Rightarrow> (Some NullDereference, s)
      | Some parent \<Rightarrow>
          if entry_temporary parent then (None, s)
          else and_then (D_ASSERT (cs_log (fst s) \<noteq> None) ''log'' s) (\<lambda>s.
            case entry_type parent of
              TABLE_ENTRY \<Rightarrow>
                if entry_type entry = TABLE_ENTRY then
                  (let info = Deserialize extra_data_size extra_data in
                   and_then (call (TableCatalogEntry_CommitAlter (entry_addr entry) info) s)
                     (log_write (WAL_WriteAlter info)))
                else log_write (WAL_WriteCreateTable (entry_addr parent)) s
            | SCHEMA_ENTRY \<Rightarrow>
                if entry_type entry = SCHEMA_ENTRY then (None, s)
                else log_write (WAL_WriteCreateSchema (entry_addr parent)) s
            | VIEW_ENTRY \<Rightarrow>
                if entry_type entry = VIEW_ENTRY then
                  (let info = Deserialize extra_data_size extra_data in
                   log_write (WAL_WriteAlter info) s)
                else log_write (WAL_WriteCreateView (entry_addr parent)) s
            | SEQUENCE_ENTRY \<Rightarrow> log_write (WAL_WriteCreateSequence (entry_addr parent)) s
            | MACRO_ENTRY \<Rightarrow> log_write (WAL_WriteCreateMacro (entry_addr parent)) s
            | DELETED_ENTRY \<Rightarrow>
                if entry_type entry = TABLE_ENTRY then
                  and_then (call (TableCatalogEntry_CommitDrop (entry_addr entry)) s)
                    (log_write (WAL_WriteDropTable (entry_addr entry)))
                else if entry_type entry = SCHEMA_ENTRY then
                  log_write (WAL_WriteDropSchema (entry_addr entry)) s
                else if entry_type entry = VIEW_ENTRY then
                  log_write (WAL_WriteDropView (entry_addr entry)) s
                else if entry_type entry = SEQUENCE_ENTRY then
                  log_write (WAL_WriteDropSequence (entry_addr entry)) s
                else if entry_type entry = MACRO_ENTRY then
                  log_write (WAL_WriteDropMacro (entry_addr entry)) s
                else if entry_type entry = PREPARED_STATEMENT then (None, s)
                else (Some (NotImplementedException ''Don't know how to drop this type!''), s)
            | INDEX_ENTRY \<Rightarrow> (None, s)
            | PREPARED_STATEMENT \<Rightarrow> (None, s)
            | AGGREGATE_FUNCTION_ENTRY \<Rightarrow> (None, s)
            | SCALAR_FUNCTION_ENTRY \<Rightarrow> (None, s)
            | TABLE_FUNCTION_ENTRY \<Rightarrow> (None, s)
            | COPY_FUNCTION_ENTRY \<Rightarrow> (None, s)
            | PRAGMA_FUNCTION_ENTRY \<Rightarrow> (None, s)
            | COLLATION_ENTRY \<Rightarrow> (None, s)
            | OTHER_CATALOG_TYPE _ \<Rightarrow>
                (Some (NotImplementedException
                   ''UndoBuffer - don't know how to write this entry to the WAL''), s)))"

text \<open>
  The loop of \<open>WriteDelete\<close>: \<open>rows[i] = info->base_row + info->rows[i]\<close> for
  \<open>i < info->count\<close>.
\<close>

definition delete_row_ids :: "DeleteInfo \<Rightarrow> Vector \<Rightarrow> Vector" where
  "delete_row_ids info rows =
     fold (\<lambda>i v. v[i := Some (BIGINT (delete_base_row info + delete_rows info ! i))])
       [0..<unat (delete_count info)] rows"

definition WriteDelete :: "DeleteInfo \<Rightarrow> state \<Rightarrow> outcome" where
  "WriteDelete info s =
     and_then (D_ASSERT (cs_log (fst s) \<noteq> None) ''log'' s) (\<lambda>s.
     and_then (SwitchTable (dt_info (delete_table info)) DELETE_TUPLE s) (\<lambda>(cs, w).
       let chunk0 = (case delete_chunk cs of
                       None \<Rightarrow> Initialize [LOGICAL_ROW_TYPE]
                     | Some c \<Rightarrow> c);
           rows = delete_row_ids info (chunk_data chunk0 ! 0);
           chunk1 = SetCardinality (unat (delete_count info))
                      (chunk0\<lparr>chunk_data := (chunk_data chunk0)[0 := rows]\<rparr>)
       in log_write (WAL_WriteDelete chunk1) (cs\<lparr>delete_chunk := Some chunk1\<rparr>, w)))"

text \<open>
  The loop of \<open>WriteUpdate\<close>: \<open>row_ids[info->tuples[i]] = start + info->tuples[i]\<close> for
  \<open>i < info->N\<close>.
\<close>

definition update_row_ids :: "UpdateInfo \<Rightarrow> idx_t \<Rightarrow> Vector \<Rightarrow> Vector" where
  "update_row_ids info start row_ids =
     fold (\<lambda>i v. v[update_tuples info ! i :=
                     Some (BIGINT (start + of_nat (update_tuples info ! i)))])
       [0..<update_N info] row_ids"

definition WriteUpdate :: "UpdateInfo \<Rightarrow> state \<Rightarrow> outcome" where
  "WriteUpdate info s =
     and_then (D_ASSERT (cs_log (fst s) \<noteq> None) ''log'' s) (\<lambda>s.
     let column_data = useg_column_data (update_segment info) in
     and_then (SwitchTable (column_table_info column_data) UPDATE_TUPLE s) (\<lambda>(cs, w).
       let chunk0 = Initialize [column_type column_data, LOGICAL_ROW_TYPE];
           fetched = FetchCommitted w (useg_addr (update_segment info))
                       (update_vector_index info) (chunk_data chunk0 ! 0);
           start = useg_start (update_segment info)
                     + update_vector_index info * of_nat STANDARD_VECTOR_SIZE;
           row_ids = update_row_ids info start (chunk_data chunk0 ! 1);
           chunk1 = Slice (update_tuples info) (update_N info)
                      (chunk0\<lparr>chunk_data := [fetched, row_ids]\<rparr>)
       in log_write (WAL_WriteUpdate chunk1 (column_idx column_data))
            (cs\<lparr>update_chunk := Some chunk1\<rparr>, w)))"

text \<open>\<open>catalog_entry->set->UpdateTimestamp(entry, timestamp)\<close>.\<close>

definition UpdateTimestamp :: "ptr \<Rightarrow> ptr \<Rightarrow> transaction_t \<Rightarrow> state \<Rightarrow> outcome" where
  "UpdateTimestamp catalog_set entry timestamp s =
     call (CatalogSet_UpdateTimestamp catalog_set entry timestamp) s"

definition set_version_number :: "ptr \<Rightarrow> transaction_t \<Rightarrow> state \<Rightarrow> outcome" where
  "set_version_number info v s =
     (case s of (cs, w) \<Rightarrow> (None, (cs, w\<lparr>version_number := (version_number w)(info := v)\<rparr>)))"

text \<open>\<open>template <bool HAS_LOG> CommitState::CommitEntry(type, data)\<close>.\<close>

fun CommitEntry :: "bool \<Rightarrow> undo_entry \<Rightarrow> state \<Rightarrow> outcome" where
  "CommitEntry HAS_LOG (CatalogChange catalog_entry extra_data_size extra_data) s =
     and_then (D_ASSERT (entry_parent catalog_entry \<noteq> None) ''catalog_entry->parent'' s) (\<lambda>s.
       case entry_parent catalog_entry of
         None \<Rightarrow> (Some NullDereference, s)
       | Some parent \<Rightarrow>
           and_then (UpdateTimestamp (entry_set catalog_entry) (entry_addr parent)
                       (commit_id (fst s)) s) (\<lambda>s.
           and_then (if entry_name catalog_entry \<noteq> entry_name parent
                     then UpdateTimestamp (entry_set catalog_entry) (entry_addr catalog_entry)
                            (commit_id (fst s)) s
                     else (None, s)) (\<lambda>s.
           if HAS_LOG then WriteCatalogEntry catalog_entry extra_data_size extra_data s
           else (None, s))))"
| "CommitEntry HAS_LOG (RowInsertion info) s =
     and_then (if HAS_LOG \<and> \<not> IsTemporary (table_infos (snd s) (dt_info (append_table info)))
               then (case cs_log (fst s) of
                       None \<Rightarrow> (Some NullDereference, s)
                     | Some lg \<Rightarrow>
                         call (DataTable_WriteToLog (dt_addr (append_table info)) lg
                                 (append_start_row info) (append_count info)) s)
               else (None, s)) (\<lambda>s.
       call (DataTable_CommitAppend (dt_addr (append_table info)) (commit_id (fst s))
               (append_start_row info) (append_count info)) s)"
| "CommitEntry HAS_LOG (RowDeletion info) s =
     and_then (if HAS_LOG \<and> \<not> IsTemporary (table_infos (snd s) (dt_info (delete_table info)))
               then WriteDelete info s
               else (None, s)) (\<lambda>s.
       call (ChunkInfo_CommitDelete (delete_vinfo info) (commit_id (fst s))
               (delete_rows info) (delete_count info)) s)"
| "CommitEntry HAS_LOG (RowUpdate info) s =
     and_then (if HAS_LOG \<and> \<not> IsTemporary (table_infos (snd s)
                                 (column_table_info (useg_column_data (update_segment info))))
               then WriteUpdate info s
               else (None, s)) (\<lambda>s.
       set_version_number (update_addr info) (commit_id (fst s)) s)"
| "CommitEntry HAS_LOG (Unrecognized n) s =
     (Some (NotImplementedException ''UndoBuffer - don't know how to commit this type!''), s)"

text \<open>\<open>info->table->info->cardinality += info->count\<close>.\<close>

definition add_cardinality :: "ptr \<Rightarrow> idx_t \<Rightarrow> state \<Rightarrow> outcome" where
  "add_cardinality table_info n s =
     (case s of (cs, w) \<Rightarrow>
        (None, (cs, w\<lparr>table_infos := (table_infos w)
                  (table_info := (table_infos w table_info)
                     \<lparr>info_cardinality := info_cardinality (table_infos w table_info) + n\<rparr>)\<rparr>)))"

text \<open>
  \<open>CommitState::RevertCommit(type, data)\<close>. Its first statement is
  \<open>transaction_t transaction_id = commit_id\<close>: the state that reverts holds the
  transaction's id in its \<open>commit_id\<close> field.
\<close>

fun RevertCommit :: "undo_entry \<Rightarrow> state \<Rightarrow> outcome" where
  "RevertCommit (CatalogChange catalog_entry extra_data_size extra_data) s =
     (let transaction_id = commit_id (fst s) in
      and_then (D_ASSERT (entry_parent catalog_entry \<noteq> None) ''catalog_entry->parent'' s) (\<lambda>s.
        case entry_parent catalog_entry of
          None \<Rightarrow> (Some NullDereference, s)
        | Some parent \<Rightarrow>
            and_then (UpdateTimestamp (entry_set catalog_entry) (entry_addr parent)
                        transaction_id s) (\<lambda>s.
            if entry_name catalog_entry \<noteq> entry_name parent
            then UpdateTimestamp (entry_set catalog_entry) (entry_addr catalog_entry)
                   transaction_id s
            else (None, s))))"
| "RevertCommit (RowInsertion info) s =
     call (DataTable_RevertAppend (dt_addr (append_table info))
             (append_start_row info) (append_count info)) s"
| "RevertCommit (RowDeletion info) s =
     (let transaction_id = commit_id (fst s) in
      and_then (add_cardinality (dt_info (delete_table info)) (delete_count info) s) (\<lambda>s.
        call (ChunkInfo_CommitDelete (delete_vinfo info) transaction_id
                (delete_rows info) (delete_count info)) s))"
| "RevertCommit (RowUpdate info) s =
     (let transaction_id = commit_id (fst s) in
      set_version_number (update_addr info) transaction_id s)"
| "RevertCommit (Unrecognized n) s =
     (Some (NotImplementedException
        ''UndoBuffer - don't know how to revert commit of this type!''), s)"

text \<open>
  Modelled from the spec: the traversal of the undo log is outside the sources; the engine
  is invoked once per undo-log entry, in log order, and an error inside one entry's
  handler ends the whole traversal at once.
\<close>

fun Commit :: "bool \<Rightarrow> undo_entry list \<Rightarrow> state \<Rightarrow> outcome" where
  "Commit HAS_LOG [] s = (None, s)"
| "Commit HAS_LOG (e # es) s =
     (case CommitEntry HAS_LOG e s of
        (None, s') \<Rightarrow> Commit HAS_LOG es s'
      | (Some err, s') \<Rightarrow> (Some err, s'))"

section \<open>Observations on traces and outcomes\<close>

text \<open>The "switch to table" markers of a trace, in order: schema and table name.\<close>

fun marker_of :: "event \<Rightarrow> (string \<times> string) list" where
  "marker_of (Log (WAL_WriteSetTable schema_name table_name)) = [(schema_name, table_name)]"
| "marker_of _ = []"

definition markers :: "event list \<Rightarrow> (string \<times> string) list" where
  "markers tr = concat (map marker_of tr)"

definition table_name :: "world \<Rightarrow> ptr \<Rightarrow> string \<times> string" where
  "table_name w t = (info_schema (table_infos w t), info_table (table_infos w t))"

text \<open>
  The calls that reach the log sink: a record written to the log, and the table's
  \<open>WriteToLog\<close>, which is handed the log.
\<close>

fun is_log_effect :: "event \<Rightarrow> bool" where
  "is_log_effect (Log _) = True"
| "is_log_effect (DataTable_WriteToLog _ _ _ _) = True"
| "is_log_effect _ = False"


text \<open>The calls \<open>RevertCommit\<close> makes.\<close>

fun is_revert_effect :: "event \<Rightarrow> bool" where
  "is_revert_effect (CatalogSet_UpdateTimestamp _ _ _) = True"
| "is_revert_effect (DataTable_RevertAppend _ _ _) = True"
| "is_revert_effect (ChunkInfo_CommitDelete _ _ _ _) = True"
| "is_revert_effect _ = False"



text \<open>
  The table an entry makes \<open>SwitchTable\<close> address when it is committed with a log: the
  table of a row deletion or a row update on a table that is not temporary.
\<close>

fun switch_table :: "world \<Rightarrow> undo_entry \<Rightarrow> ptr list" where
  "switch_table w (RowDeletion info) =
     (if IsTemporary (table_infos w (dt_info (delete_table info))) then []
      else [dt_info (delete_table info)])"
| "switch_table w (RowUpdate info) =
     (if IsTemporary (table_infos w (column_table_info (useg_column_data (update_segment info))))
      then [] else [column_table_info (useg_column_data (update_segment info))])"
| "switch_table w _ = []"

definition switch_tables :: "world \<Rightarrow> undo_entry list \<Rightarrow> ptr list" where
  "switch_tables w es = concat (map (switch_table w) es)"

text \<open>
  The spec's reading of the log-switching rule: every entry that is logged for a table
  (a row insertion, a row deletion or a row update on a table that is not temporary)
  counts, and a marker is due whenever the table differs from the one of the entry
  logged before.
\<close>

fun logged_table :: "world \<Rightarrow> undo_entry \<Rightarrow> ptr list" where
  "logged_table w (RowInsertion info) =
     (if IsTemporary (table_infos w (dt_info (append_table info))) then []
      else [dt_info (append_table info)])"
| "logged_table w e = switch_table w e"

definition markers_by_spec :: "world \<Rightarrow> undo_entry list \<Rightarrow> (string \<times> string) list" where
  "markers_by_spec w es = map (table_name w) (remdups_adj (concat (map (logged_table w) es)))"

fun raises_NotImplemented :: "outcome \<Rightarrow> bool" where
  "raises_NotImplemented (Some (NotImplementedException _), _) = True"
| "raises_NotImplemented _ = False"

text \<open>The entry types a drop (an entry whose parent is \<open>DELETED_ENTRY\<close>) is handled for.\<close>

definition handled_drop_types :: "CatalogType list" where
  "handled_drop_types =
     [TABLE_ENTRY, SCHEMA_ENTRY, VIEW_ENTRY, SEQUENCE_ENTRY, MACRO_ENTRY, PREPARED_STATEMENT]"

text \<open>The parent types \<open>WriteCatalogEntry\<close> has a case for.\<close>

fun enumerated_parent_type :: "CatalogType \<Rightarrow> bool" where
  "enumerated_parent_type (OTHER_CATALOG_TYPE _) = False"
| "enumerated_parent_type _ = True"


text \<open>
  The calls \<open>WriteCatalogEntry\<close> makes: the create, alter and drop records of the log,
  and the \<open>CommitAlter\<close> and \<open>CommitDrop\<close> hooks of a table entry.
\<close>

fun is_catalog_effect :: "event \<Rightarrow> bool" where
  "is_catalog_effect (Log (WAL_WriteSetTable _ _)) = False"
| "is_catalog_effect (Log (WAL_WriteDelete _)) = False"
| "is_catalog_effect (Log (WAL_WriteUpdate _ _)) = False"
| "is_catalog_effect (Log _) = True"
| "is_catalog_effect (TableCatalogEntry_CommitAlter _ _) = True"
| "is_catalog_effect (TableCatalogEntry_CommitDrop _) = True"
| "is_catalog_effect _ = False"

text \<open>
  An outcome that leaves the \<open>CommitState\<close> as it was and only appends catalog effects
  to the trace.
\<close>

definition catalog_frame :: "state \<Rightarrow> outcome \<Rightarrow> bool" where
  "catalog_frame s r =
     (fst (snd r) = fst s
      \<and> (\<exists>evs. snd (snd r) = (snd s)\<lparr>trace := trace (snd s) @ evs\<rparr>
            \<and> list_all is_catalog_effect evs))"




text \<open>The table the log currently addresses, as a list: empty before the first marker.\<close>

definition current_tables :: "CommitState \<Rightarrow> ptr list" where
  "current_tables cs = (case current_table_info cs of None \<Rightarrow> [] | Some c \<Rightarrow> [c])"

section \<open>Example objects\<close>

definition example_stats :: SegmentStatistics where
  "example_stats = \<lparr>stats_min = Some (BIGINT 3), stats_max = Some (BIGINT 70), stats_has_null = False\<rparr>"

definition example_persistent :: PersistentSegment where
  "example_persistent =
     \<lparr>ps_db = 1, ps_type = ''BIGINT'', ps_start = 2048, ps_count = 1024, ps_stats = example_stats,
      ps_data = \<lparr>tuple_count = 1024, block = 7\<rparr>, ps_block_id = 7, ps_next = None\<rparr>"

definition example_transient :: TransientSegment where
  "example_transient =
     \<lparr>ts_db = 1, ts_type = ''BIGINT'', ts_start = 2048, ts_count = 1024, ts_stats = example_stats,
      ts_data = \<lparr>tuple_count = 1024, block = 7\<rparr>\<rparr>"

definition example_infos :: "ptr \<Rightarrow> DataTableInfo" where
  "example_infos t =
     (if t = 10 then \<lparr>info_schema = ''main'', info_table = ''A'', info_temporary = False,
                       info_cardinality = 5\<rparr>
      else if t = 20 then \<lparr>info_schema = ''main'', info_table = ''B'', info_temporary = False,
                            info_cardinality = 8\<rparr>
      else \<lparr>info_schema = ''temp'', info_table = ''T'', info_temporary = True,
             info_cardinality = 0\<rparr>)"

definition example_world :: world where
  "example_world =
     \<lparr>trace = [], table_infos = example_infos, version_number = (\<lambda>_. 4611686018427387909),
      FetchCommitted = (\<lambda>seg vector_index v. v[2 := Some (VARCHAR ''b''), 5 := Some (VARCHAR ''e'')])\<rparr>"

definition example_cs :: CommitState where
  "example_cs = CommitState_new 7 (Some 900)"

definition table_A :: DataTable where
  "table_A = \<lparr>dt_addr = 11, dt_info = 10\<rparr>"

definition table_B :: DataTable where
  "table_B = \<lparr>dt_addr = 21, dt_info = 20\<rparr>"

definition table_T :: DataTable where
  "table_T = \<lparr>dt_addr = 31, dt_info = 30\<rparr>"

definition insert_A :: AppendInfo where
  "insert_A = \<lparr>append_table = table_A, append_start_row = 100, append_count = 3\<rparr>"

definition insert_B :: AppendInfo where
  "insert_B = \<lparr>append_table = table_B, append_start_row = 40, append_count = 2\<rparr>"

definition insert_T :: AppendInfo where
  "insert_T = \<lparr>append_table = table_T, append_start_row = 0, append_count = 1\<rparr>"

definition delete_A :: DeleteInfo where
  "delete_A = \<lparr>delete_table = table_A, delete_vinfo = 12, delete_count = 2,
                delete_base_row = 1024, delete_rows = [3, 4]\<rparr>"

definition delete_B :: DeleteInfo where
  "delete_B = \<lparr>delete_table = table_B, delete_vinfo = 22, delete_count = 1,
                delete_base_row = 0, delete_rows = [6]\<rparr>"

definition update_A :: UpdateInfo where
  "update_A =
     \<lparr>update_addr = 13,
      update_segment = \<lparr>useg_addr = 14, useg_start = 2048,
        useg_column_data = \<lparr>column_table_info = 10, column_type = ''VARCHAR'', column_idx = 1\<rparr>\<rparr>,
      update_vector_index = 1, update_N = 2, update_tuples = [2, 5],
      update_tuple_data = [VARCHAR ''a'', VARCHAR ''d'']\<rparr>"




definition dropped_parent :: CatalogEntry where
  "dropped_parent = CatalogEntry 51 DELETED_ENTRY ''idx'' False 62 None"

definition dropped_index :: CatalogEntry where
  "dropped_index = CatalogEntry 50 INDEX_ENTRY ''idx'' False 62 (Some dropped_parent)"

definition dropped_temporary_index :: CatalogEntry where
  "dropped_temporary_index = CatalogEntry 52 INDEX_ENTRY ''idx'' True 62 (Some dropped_parent)"



definition switching_log :: "undo_entry list" where
  "switching_log = [RowDeletion delete_A, RowUpdate update_A, RowDeletion delete_B, RowDeletion delete_A]"

definition mixed_log :: "undo_entry list" where
  "mixed_log = [RowDeletion delete_A, RowInsertion insert_B, RowDeletion delete_A]"

section \<open>Column segments: promotion, revert of an append, point fetch\<close>

text \<open>
  C5. Constructing a transient segment from a persistent segment that has no successor
  succeeds and keeps the start row, the row count and the statistics of the persistent
  segment.
\<close>

theorem C5_promotion_preserves:
  "ps_next segment = None \<Longrightarrow>
   \<exists>t. TransientSegment_of_persistent ToTemporary segment = Inr t
     \<and> ts_start t = ps_start segment \<and> ts_count t = ps_count segment
     \<and> ts_stats t = ps_stats segment"
  by (simp add: TransientSegment_of_persistent_def Let_def)

theorem C5_promotion_preserves_witness:
  "ps_next example_persistent = None
   \<and> (\<exists>t. TransientSegment_of_persistent (\<lambda>d. d\<lparr>block := 2 ^ 62\<rparr>) example_persistent = Inr t
        \<and> ts_start t = 2048 \<and> ts_count t = 1024 \<and> ts_stats t = example_stats)"
proof -
  have h: "ps_next example_persistent = None"
    by (simp add: example_persistent_def)
  show ?thesis
    using h C5_promotion_preserves [OF h, of "\<lambda>d. d\<lparr>block := 2 ^ 62\<rparr>"]
    by (simp add: example_persistent_def)
qed

text \<open>
  C6. \<open>RevertAppend(start_row)\<close> on a transient segment with start row \<open>s\<close>: when
  \<open>s \<le> start_row\<close> the row count and the tuple count of the data block become
  \<open>start_row - s\<close> (no wrap-around); applying it twice with the same argument is the
  same as applying it once; and with \<open>start_row\<close> equal to \<open>s\<close> plus the current row
  count the row count stays as it is (and the whole segment does, when the data block's
  tuple count agrees with the row count).
\<close>

theorem C6_revert_append:
  "(ts_start this \<le> start_row \<longrightarrow>
      unat (ts_count (RevertAppend start_row this)) = unat start_row - unat (ts_start this)
    \<and> unat (tuple_count (ts_data (RevertAppend start_row this)))
        = unat start_row - unat (ts_start this))
   \<and> RevertAppend start_row (RevertAppend start_row this) = RevertAppend start_row this
   \<and> ts_count (RevertAppend (ts_start this + ts_count this) this) = ts_count this
   \<and> (tuple_count (ts_data this) = ts_count this \<longrightarrow>
        RevertAppend (ts_start this + ts_count this) this = this)"
  by (simp add: RevertAppend_def unat_sub)

theorem C6_revert_append_witness:
  "ts_start example_transient \<le> 2560
   \<and> ts_count (RevertAppend 2560 example_transient) = 512
   \<and> tuple_count (ts_data (RevertAppend 2560 example_transient)) = 512
   \<and> RevertAppend 2560 (RevertAppend 2560 example_transient) = RevertAppend 2560 example_transient
   \<and> tuple_count (ts_data example_transient) = ts_count example_transient
   \<and> RevertAppend 3072 example_transient = example_transient"
  using C6_revert_append [of example_transient 2560]
    C6_revert_append [of example_transient 3072]
  by (simp add: example_transient_def RevertAppend_def)

text \<open>Reverting to the row the segment ended at before an append undoes the append's count.\<close>

lemma Append_then_RevertAppend:
  "ts_count (RevertAppend (ts_start this + ts_count this)
               (snd (Append data_Append this append_data offset n))) = ts_count this"
  by (simp add: Append_def RevertAppend_def split: prod.splits)

text \<open>
  C10. \<open>FetchRow\<close> hands the data block the offset \<open>row_id - start\<close>, computed on
  64-bit unsigned values. When \<open>start \<le> row_id < start + count\<close> the offset is the
  difference of the two numbers and lies below \<open>count\<close>. When \<open>row_id < start\<close> the
  subtraction wraps: the offset is \<open>2 ^ 64 + row_id - start\<close>, which is outside the
  block whenever the segment's row range itself fits into 64 bits.
\<close>

theorem C10_fetch_row_offset:
  "(unat (ts_start this) \<le> unat row_id
      \<and> unat row_id < unat (ts_start this) + unat (ts_count this) \<longrightarrow>
      (\<exists>off. (\<forall>f :: UncompressedSegment \<Rightarrow> 64 word \<Rightarrow> 'r.
                 FetchRow f this row_id = f (ts_data this) off)
         \<and> unat off = unat row_id - unat (ts_start this)
         \<and> unat off < unat (ts_count this)))
   \<and> (unat row_id < unat (ts_start this) \<longrightarrow>
      (\<exists>off. (\<forall>f :: UncompressedSegment \<Rightarrow> 64 word \<Rightarrow> 'r.
                 FetchRow f this row_id = f (ts_data this) off)
         \<and> unat off = 2 ^ 64 + unat row_id - unat (ts_start this)
         \<and> (unat (ts_start this) + unat (ts_count this) \<le> 2 ^ 64 \<longrightarrow>
              unat (ts_count this) \<le> unat off)))"
proof -
  have sub: "unat (row_id - ts_start this) =
      (if unat (ts_start this) \<le> unat row_id then unat row_id - unat (ts_start this)
       else unat row_id + 2 ^ 64 - unat (ts_start this))"
    by (simp add: unat_sub_if_size word_size)
  have lt2: "unat (ts_start this) < 2 ^ 64"
    using unsigned_less [of "ts_start this", where 'a = nat] by simp
  have in_range: "unat (ts_start this) \<le> unat row_id \<Longrightarrow>
      unat row_id < unat (ts_start this) + unat (ts_count this) \<Longrightarrow>
      unat (row_id - ts_start this) = unat row_id - unat (ts_start this)
      \<and> unat (row_id - ts_start this) < unat (ts_count this)"
    using sub by auto
  have below: "unat row_id < unat (ts_start this) \<Longrightarrow>
      unat (row_id - ts_start this) = 2 ^ 64 + unat row_id - unat (ts_start this)
      \<and> (unat (ts_start this) + unat (ts_count this) \<le> 2 ^ 64 \<longrightarrow>
           unat (ts_count this) \<le> unat (row_id - ts_start this))"
    using sub lt2 by auto
  show ?thesis
    unfolding FetchRow_def using in_range below by blast
qed

theorem C10_fetch_row_offset_witness:
  "unat (ts_start example_transient) \<le> unat (2050 :: row_t)
   \<and> unat (2050 :: row_t) < unat (ts_start example_transient) + unat (ts_count example_transient)
   \<and> FetchRow (\<lambda>d off. off) example_transient 2050 = 2
   \<and> unat (2047 :: row_t) < unat (ts_start example_transient)
   \<and> FetchRow (\<lambda>d off. off) example_transient 2047 = 18446744073709551615"
  using C10_fetch_row_offset [of example_transient 2050, where 'r = "64 word"]
    C10_fetch_row_offset [of example_transient 2047, where 'r = "64 word"]
  by (simp add: example_transient_def FetchRow_def)

section \<open>The commit engine\<close>

lemma and_then_None: "and_then (None, s) f = f s"
  by (simp add: and_then_def)

lemma and_then_Some: "and_then (Some e, s) f = (Some e, s)"
  by (simp add: and_then_def)

lemma markers_append: "markers (xs @ ys) = markers xs @ markers ys"
  by (simp add: markers_def)


lemma catalog_frame_same: "catalog_frame s (r, s)"
  unfolding catalog_frame_def by (auto intro: exI [of _ "[]"])

lemma catalog_frame_log_write:
  "is_catalog_effect (Log r) \<Longrightarrow> catalog_frame s (log_write r s)"
  unfolding catalog_frame_def log_write_def emit_def
  by (cases s) (auto split: option.splits intro: exI [of _ "[]"] exI [of _ "[Log r]"])

lemma catalog_frame_hook_log_write:
  "is_catalog_effect ev \<Longrightarrow> is_catalog_effect (Log r) \<Longrightarrow>
   catalog_frame s (and_then (call ev s) (log_write r))"
  unfolding catalog_frame_def log_write_def emit_def call_def and_then_def
  by (cases s) (auto split: option.splits intro: exI [of _ "[ev]"] exI [of _ "[ev, Log r]"])

lemma WriteCatalogEntry_frame: "catalog_frame s (WriteCatalogEntry ce n ex s)"
  unfolding WriteCatalogEntry_def
  by (simp add: catalog_frame_same catalog_frame_log_write catalog_frame_hook_log_write
      D_ASSERT_def and_then_None and_then_Some Let_def
      split: option.splits CatalogType.splits)



lemma revert_effect_not_log: "is_revert_effect ev \<Longrightarrow> \<not> is_log_effect ev"
  by (cases ev) simp_all

lemma revert_effects_not_log: "list_all is_revert_effect evs \<Longrightarrow> filter is_log_effect evs = []"
  by (induction evs) (simp_all add: revert_effect_not_log)

text \<open>The state a catalog change is in once both timestamps are written.\<close>

lemma CommitEntry_catalog:
  assumes "entry_parent ce = Some p"
  shows "\<exists>evs. snd (CommitEntry HAS_LOG (CatalogChange ce n ex) (cs, w)) =
           (cs, w\<lparr>trace := trace w
              @ CatalogSet_UpdateTimestamp (entry_set ce) (entry_addr p) (commit_id cs)
              # (if entry_name ce \<noteq> entry_name p
                 then [CatalogSet_UpdateTimestamp (entry_set ce) (entry_addr ce) (commit_id cs)]
                 else [])
              @ evs\<rparr>)
         \<and> list_all is_catalog_effect evs \<and> (\<not> HAS_LOG \<longrightarrow> evs = [])"
proof (cases HAS_LOG)
  case False
  then show ?thesis
    using assms
    by (simp add: D_ASSERT_def and_then_None UpdateTimestamp_def call_def emit_def)
next
  case True
  define w2 where "w2 = w\<lparr>trace := trace w
              @ CatalogSet_UpdateTimestamp (entry_set ce) (entry_addr p) (commit_id cs)
              # (if entry_name ce \<noteq> entry_name p
                 then [CatalogSet_UpdateTimestamp (entry_set ce) (entry_addr ce) (commit_id cs)]
                 else [])\<rparr>"
  have step: "CommitEntry HAS_LOG (CatalogChange ce n ex) (cs, w) = WriteCatalogEntry ce n ex (cs, w2)"
    using assms True
    by (simp add: D_ASSERT_def and_then_None UpdateTimestamp_def call_def emit_def w2_def)
  from WriteCatalogEntry_frame [of "(cs, w2)" ce n ex]
  obtain evs where "snd (WriteCatalogEntry ce n ex (cs, w2)) = (cs, w2\<lparr>trace := trace w2 @ evs\<rparr>)"
    and "list_all is_catalog_effect evs"
    unfolding catalog_frame_def by (auto simp: prod_eq_iff)
  then show ?thesis
    unfolding step using True by (auto simp: w2_def intro!: exI [of _ evs])
qed





text \<open>
  C4. Committing a row insertion with logging enabled (the template flag set and a log
  attached) on a table that is not temporary calls the table's \<open>WriteToLog\<close> for the
  range \<open>start_row, count\<close> and then \<open>CommitAppend(commit_id, start_row, count)\<close>, in
  that order and nothing else. Without logging, or on a temporary table, only
  \<open>CommitAppend(commit_id, start_row, count)\<close> is called.
\<close>

theorem C4_insert_logged_before_commit:
  "(HAS_LOG \<and> \<not> IsTemporary (table_infos w (dt_info (append_table info))) \<and> cs_log cs = Some lg \<longrightarrow>
      CommitEntry HAS_LOG (RowInsertion info) (cs, w) =
        (None, (cs, w\<lparr>trace := trace w @
           [DataTable_WriteToLog (dt_addr (append_table info)) lg
              (append_start_row info) (append_count info),
            DataTable_CommitAppend (dt_addr (append_table info)) (commit_id cs)
              (append_start_row info) (append_count info)]\<rparr>)))
   \<and> (\<not> HAS_LOG \<or> IsTemporary (table_infos w (dt_info (append_table info))) \<longrightarrow>
      CommitEntry HAS_LOG (RowInsertion info) (cs, w) =
        (None, (cs, w\<lparr>trace := trace w @
           [DataTable_CommitAppend (dt_addr (append_table info)) (commit_id cs)
              (append_start_row info) (append_count info)]\<rparr>)))"
  by (auto simp: and_then_def call_def emit_def)

theorem C4_insert_logged_before_commit_witness:
  "\<not> IsTemporary (table_infos example_world (dt_info (append_table insert_A)))
   \<and> cs_log example_cs = Some 900
   \<and> CommitEntry True (RowInsertion insert_A) (example_cs, example_world) =
       (None, (example_cs, example_world\<lparr>trace :=
          [DataTable_WriteToLog 11 900 100 3, DataTable_CommitAppend 11 7 100 3]\<rparr>))
   \<and> IsTemporary (table_infos example_world (dt_info (append_table insert_T)))
   \<and> CommitEntry True (RowInsertion insert_T) (example_cs, example_world) =
       (None, (example_cs, example_world\<lparr>trace := [DataTable_CommitAppend 31 7 0 1]\<rparr>))
   \<and> CommitEntry False (RowInsertion insert_A) (example_cs, example_world) =
       (None, (example_cs, example_world\<lparr>trace := [DataTable_CommitAppend 11 7 100 3]\<rparr>))"
  using C4_insert_logged_before_commit [of True example_world insert_A example_cs 900]
    C4_insert_logged_before_commit [of True example_world insert_T example_cs 900]
    C4_insert_logged_before_commit [of False example_world insert_A example_cs 900]
  by (simp add: example_cs_def CommitState_new_def example_world_def example_infos_def
      insert_A_def insert_T_def table_A_def table_T_def IsTemporary_def)

lemma RevertCommit_frame:
  "RevertCommit e (cs, w) = (r, (cs', w')) \<Longrightarrow>
     cs' = cs \<and> (\<exists>evs. trace w' = trace w @ evs \<and> list_all is_revert_effect evs)
     \<and> FetchCommitted w' = FetchCommitted w"
  by (cases e) (auto simp: and_then_def call_def emit_def D_ASSERT_def UpdateTimestamp_def
      set_version_number_def add_cardinality_def Let_def split: option.splits if_splits)

text \<open>
  C8. For every undo entry, \<open>RevertCommit\<close> leaves the \<open>CommitState\<close> as it was and
  appends only timestamp updates, \<open>RevertAppend\<close> and \<open>CommitDelete\<close> calls to the
  trace: the calls that reach the log sink are the same before and after.
\<close>

theorem C8_revert_writes_no_log:
  "\<exists>r evs w'. RevertCommit e (cs, w) = (r, (cs, w'))
     \<and> trace w' = trace w @ evs \<and> list_all is_revert_effect evs
     \<and> filter is_log_effect (trace w') = filter is_log_effect (trace w)
     \<and> FetchCommitted w' = FetchCommitted w"
proof -
  obtain r cs' w' where eq: "RevertCommit e (cs, w) = (r, (cs', w'))"
    by (metis prod.exhaust)
  from RevertCommit_frame [OF eq] obtain evs where "cs' = cs"
    and "trace w' = trace w @ evs" and "list_all is_revert_effect evs"
    and "FetchCommitted w' = FetchCommitted w"
    by blast
  then show ?thesis
    using eq by (auto simp: revert_effects_not_log)
qed

theorem C8_revert_writes_no_log_witness:
  "\<exists>r w'. RevertCommit (RowDeletion delete_A)
       (example_cs, example_world\<lparr>trace := [Log (WAL_WriteSetTable ''main'' ''A'')]\<rparr>) = (r, (example_cs, w'))
     \<and> trace w' = [Log (WAL_WriteSetTable ''main'' ''A''), ChunkInfo_CommitDelete 12 7 [3, 4] 2]
     \<and> filter is_log_effect (trace w') = [Log (WAL_WriteSetTable ''main'' ''A'')]"
  using C8_revert_writes_no_log [of "RowDeletion delete_A" example_cs
      "example_world\<lparr>trace := [Log (WAL_WriteSetTable ''main'' ''A'')]\<rparr>"]
  by (simp add: and_then_def add_cardinality_def call_def emit_def delete_A_def example_cs_def
      CommitState_new_def)



lemma log_write_no_raise: "\<not> raises_NotImplemented (log_write r s)"
  by (cases s) (simp add: log_write_def split: option.splits)

lemma hook_log_write_no_raise: "\<not> raises_NotImplemented (and_then (call ev s) (log_write r))"
  by (cases s) (simp add: log_write_def call_def and_then_def split: option.splits)

lemma WriteCatalogEntry_raises:
  "raises_NotImplemented (WriteCatalogEntry ce n ex (cs, w)) \<longleftrightarrow>
     (\<exists>p. entry_parent ce = Some p \<and> \<not> entry_temporary ce \<and> \<not> entry_temporary p
        \<and> cs_log cs \<noteq> None
        \<and> (entry_type p = DELETED_ENTRY \<and> entry_type ce \<notin> set handled_drop_types
           \<or> \<not> enumerated_parent_type (entry_type p)))"
  unfolding WriteCatalogEntry_def
  by (simp add: log_write_no_raise hook_log_write_no_raise handled_drop_types_def
      D_ASSERT_def and_then_None and_then_Some Let_def
      split: option.splits CatalogType.splits)

lemma unknown_kind: "undo_type e \<notin> {CATALOG_ENTRY, INSERT_TUPLE, DELETE_TUPLE, UPDATE_TUPLE}
    \<longleftrightarrow> (\<exists>n. e = Unrecognized n)"
  by (cases e) simp_all


lemma raises_NotImplemented_iff:
  "raises_NotImplemented r \<longleftrightarrow> (\<exists>m. fst r = Some (NotImplementedException m))"
proof -
  obtain a s where r: "r = (a, s)" by (metis prod.exhaust)
  show ?thesis
  proof (cases a)
    case None
    with r show ?thesis by simp
  next
    case (Some err)
    with r show ?thesis by (cases err) simp_all
  qed
qed

lemma and_then_not_NIE:
  "fst r \<noteq> Some (NotImplementedException m) \<Longrightarrow>
   (\<And>s. fst (f s) \<noteq> Some (NotImplementedException m)) \<Longrightarrow>
   fst (and_then r f) \<noteq> Some (NotImplementedException m)"
  by (cases r; cases "fst r") (auto simp: and_then_def)

lemma fst_call: "fst (call ev s) \<noteq> Some (NotImplementedException m)"
  by (cases s) (simp add: call_def)

lemma fst_log_write: "fst (log_write r s) \<noteq> Some (NotImplementedException m)"
  by (cases s) (simp add: log_write_def split: option.splits)

lemma fst_D_ASSERT: "fst (D_ASSERT b what s) \<noteq> Some (NotImplementedException m)"
  by (simp add: D_ASSERT_def)

lemma fst_SwitchTable: "fst (SwitchTable t new_op s) \<noteq> Some (NotImplementedException m)"
  by (cases s) (simp add: SwitchTable_def log_write_def and_then_def split: option.splits)

lemma fst_WriteDelete: "fst (WriteDelete info s) \<noteq> Some (NotImplementedException m)"
  unfolding WriteDelete_def
  by (intro and_then_not_NIE fst_D_ASSERT fst_SwitchTable)
    (simp add: split_def Let_def fst_log_write)

lemma fst_WriteUpdate: "fst (WriteUpdate info s) \<noteq> Some (NotImplementedException m)"
  unfolding WriteUpdate_def Let_def
  by (intro and_then_not_NIE fst_D_ASSERT fst_SwitchTable)
    (simp add: split_def fst_log_write)

lemma fst_set_version_number: "fst (set_version_number a v s) \<noteq> Some (NotImplementedException m)"
  by (cases s) (simp add: set_version_number_def)

lemma fst_hook_log_write:
  "fst (and_then (call ev s) (log_write r)) \<noteq> Some (NotImplementedException m)"
  by (intro and_then_not_NIE fst_call fst_log_write)

lemma WriteCatalogEntry_messages:
  "fst (WriteCatalogEntry ce n ex s) = Some (NotImplementedException m) \<Longrightarrow>
     m = ''Don't know how to drop this type!''
     \<or> m = ''UndoBuffer - don't know how to write this entry to the WAL''"
  unfolding WriteCatalogEntry_def
  by (simp add: fst_hook_log_write fst_log_write D_ASSERT_def and_then_None and_then_Some Let_def
      split: option.splits CatalogType.splits if_splits)

lemma CommitEntry_catalog_step:
  assumes "entry_parent ce = Some p"
  shows "CommitEntry True (CatalogChange ce n ex) (cs, w) =
     WriteCatalogEntry ce n ex (cs, w\<lparr>trace := trace w
              @ CatalogSet_UpdateTimestamp (entry_set ce) (entry_addr p) (commit_id cs)
              # (if entry_name ce \<noteq> entry_name p
                 then [CatalogSet_UpdateTimestamp (entry_set ce) (entry_addr ce) (commit_id cs)]
                 else [])\<rparr>)"
  using assms
  by (simp add: D_ASSERT_def and_then_None UpdateTimestamp_def call_def emit_def)

lemma CommitEntry_False_not_NIE:
  "fst (CommitEntry False e s) = Some (NotImplementedException m) \<Longrightarrow> \<exists>n. e = Unrecognized n"
proof (cases e)
  case (CatalogChange ce n ex)
  assume a: "fst (CommitEntry False e s) = Some (NotImplementedException m)"
  have "fst (CommitEntry False (CatalogChange ce n ex) s) \<noteq> Some (NotImplementedException m)"
    by (cases s; cases "entry_parent ce")
      (simp_all add: D_ASSERT_def and_then_None and_then_Some UpdateTimestamp_def call_def)
  with a CatalogChange show ?thesis by simp
next
  case (RowInsertion info)
  assume a: "fst (CommitEntry False e s) = Some (NotImplementedException m)"
  then show ?thesis using RowInsertion by (cases s) (simp add: and_then_None call_def)
next
  case (RowDeletion info)
  assume a: "fst (CommitEntry False e s) = Some (NotImplementedException m)"
  then show ?thesis using RowDeletion by (cases s) (simp add: and_then_None call_def)
next
  case (RowUpdate info)
  assume a: "fst (CommitEntry False e s) = Some (NotImplementedException m)"
  then show ?thesis using RowUpdate by (cases s) (simp add: and_then_None set_version_number_def)
next
  case (Unrecognized n)
  then show ?thesis by simp
qed


lemma fst_log_write_world: "fst (log_write r (cs, w)) = fst (log_write r (cs, w'))"
  by (simp add: log_write_def split: option.splits)

lemma fst_hook_log_write_world:
  "fst (and_then (call ev (cs, w)) (log_write r)) = fst (and_then (call ev (cs, w')) (log_write r))"
  by (simp add: log_write_def call_def and_then_def split: option.splits)

lemma fst_WriteCatalogEntry_world:
  "fst (WriteCatalogEntry ce n ex (cs, w)) = fst (WriteCatalogEntry ce n ex (cs, w'))"
proof (cases "entry_parent ce")
  case None
  then show ?thesis by (simp add: WriteCatalogEntry_def)
next
  case (Some p)
  show ?thesis
  proof (cases "entry_temporary ce \<or> entry_temporary p \<or> cs_log cs = None")
    case True
    then show ?thesis
      using Some by (auto simp: WriteCatalogEntry_def D_ASSERT_def and_then_Some)
  next
    case False
    then show ?thesis
      using Some fst_log_write_world [of _ cs w w'] fst_hook_log_write_world [of _ cs w _ w']
      by (cases "entry_type p")
        (simp_all add: WriteCatalogEntry_def D_ASSERT_def and_then_None Let_def)
  qed
qed

lemma CommitEntry_True_NIE:
  assumes "fst (CommitEntry True e (cs, w)) = Some (NotImplementedException m)"
  shows "(\<exists>n. e = Unrecognized n)
     \<or> (\<exists>ce n ex. e = CatalogChange ce n ex
          \<and> fst (WriteCatalogEntry ce n ex (cs, w)) = Some (NotImplementedException m))"
proof (cases e)
  case (CatalogChange ce n ex)
  show ?thesis
  proof (cases "entry_parent ce")
    case None
    with assms CatalogChange show ?thesis
      by (simp add: D_ASSERT_def and_then_Some)
  next
    case (Some p)
    from assms show ?thesis
      unfolding CatalogChange CommitEntry_catalog_step [OF Some]
      by (metis fst_WriteCatalogEntry_world)
  qed
next
  case (RowInsertion info)
  have "fst (CommitEntry True (RowInsertion info) (cs, w)) \<noteq> Some (NotImplementedException m)"
    unfolding CommitEntry.simps
    by (intro and_then_not_NIE fst_call) (simp add: fst_call split: option.splits)
  with assms RowInsertion show ?thesis by simp
next
  case (RowDeletion info)
  have "fst (CommitEntry True (RowDeletion info) (cs, w)) \<noteq> Some (NotImplementedException m)"
    unfolding CommitEntry.simps
    by (intro and_then_not_NIE fst_call) (simp add: fst_WriteDelete)
  with assms RowDeletion show ?thesis by simp
next
  case (RowUpdate info)
  have "fst (CommitEntry True (RowUpdate info) (cs, w)) \<noteq> Some (NotImplementedException m)"
    unfolding CommitEntry.simps
    by (intro and_then_not_NIE fst_set_version_number) (simp add: fst_WriteUpdate)
  with assms RowUpdate show ?thesis by simp
next
  case (Unrecognized n)
  then show ?thesis by simp
qed

lemma RevertCommit_NIE:
  assumes "fst (RevertCommit e (cs, w)) = Some (NotImplementedException m)"
  shows "\<exists>n. e = Unrecognized n"
proof (cases e)
  case (CatalogChange ce n ex)
  have "fst (RevertCommit (CatalogChange ce n ex) (cs, w)) \<noteq> Some (NotImplementedException m)"
    by (cases "entry_parent ce")
      (simp_all add: D_ASSERT_def and_then_None and_then_Some UpdateTimestamp_def call_def Let_def)
  with assms CatalogChange show ?thesis by simp
next
  case (RowInsertion info)
  with assms show ?thesis by (simp add: call_def)
next
  case (RowDeletion info)
  with assms show ?thesis by (simp add: call_def add_cardinality_def and_then_None Let_def)
next
  case (RowUpdate info)
  with assms show ?thesis by (simp add: set_version_number_def Let_def)
next
  case (Unrecognized n)
  then show ?thesis by simp
qed

text \<open>
  C7 (amended). \<open>CommitEntry\<close> raises its "don't know how to commit this type" error
  exactly when the entry's kind is not one of the four known kinds; without a log it
  raises no other \<open>NotImplementedException\<close>, and neither does \<open>RevertCommit\<close>, which
  raises one exactly for an unknown kind. With a log, \<open>CommitEntry\<close> also passes on the
  exception \<open>WriteCatalogEntry\<close> raises for a catalog change. \<open>WriteCatalogEntry\<close>,
  with a log attached, raises exactly when neither the entry nor its parent is temporary
  and either the parent is a \<open>DELETED_ENTRY\<close> and the entry's type is outside the
  handled set, or the parent's type is outside the enumerated cases.
\<close>

theorem C7_not_implemented:
  "(fst (CommitEntry HAS_LOG e (cs, w))
      = Some (NotImplementedException ''UndoBuffer - don't know how to commit this type!'')
    \<longleftrightarrow> undo_type e \<notin> {CATALOG_ENTRY, INSERT_TUPLE, DELETE_TUPLE, UPDATE_TUPLE})
   \<and> (raises_NotImplemented (CommitEntry False e (cs, w))
    \<longleftrightarrow> undo_type e \<notin> {CATALOG_ENTRY, INSERT_TUPLE, DELETE_TUPLE, UPDATE_TUPLE})
   \<and> (raises_NotImplemented (RevertCommit e (cs, w))
    \<longleftrightarrow> undo_type e \<notin> {CATALOG_ENTRY, INSERT_TUPLE, DELETE_TUPLE, UPDATE_TUPLE})
   \<and> (raises_NotImplemented (CommitEntry True e (cs, w))
    \<longleftrightarrow> undo_type e \<notin> {CATALOG_ENTRY, INSERT_TUPLE, DELETE_TUPLE, UPDATE_TUPLE}
       \<or> (\<exists>entry n ex. e = CatalogChange entry n ex
            \<and> raises_NotImplemented (WriteCatalogEntry entry n ex (cs, w))))
   \<and> (cs_log cs \<noteq> None \<and> entry_parent ce = Some p \<longrightarrow>
        (raises_NotImplemented (WriteCatalogEntry ce n' ex' (cs, w))
         \<longleftrightarrow> \<not> entry_temporary ce \<and> \<not> entry_temporary p
            \<and> (entry_type p = DELETED_ENTRY \<and> entry_type ce \<notin> set handled_drop_types
               \<or> \<not> enumerated_parent_type (entry_type p))))"
proof (intro conjI)
  let ?msg = "''UndoBuffer - don't know how to commit this type!''"
  show "fst (CommitEntry HAS_LOG e (cs, w)) = Some (NotImplementedException ?msg)
    \<longleftrightarrow> undo_type e \<notin> {CATALOG_ENTRY, INSERT_TUPLE, DELETE_TUPLE, UPDATE_TUPLE}"
  proof
    assume a: "fst (CommitEntry HAS_LOG e (cs, w)) = Some (NotImplementedException ?msg)"
    have "\<exists>n. e = Unrecognized n"
    proof (cases HAS_LOG)
      case False
      with a show ?thesis using CommitEntry_False_not_NIE [of e "(cs, w)" ?msg] by simp
    next
      case True
      with a have t: "fst (CommitEntry True e (cs, w)) = Some (NotImplementedException ?msg)"
        by simp
      from CommitEntry_True_NIE [OF t] show ?thesis
      proof
        assume "\<exists>n. e = Unrecognized n"
        then show ?thesis .
      next
        assume "\<exists>ce n ex. e = CatalogChange ce n ex
          \<and> fst (WriteCatalogEntry ce n ex (cs, w)) = Some (NotImplementedException ?msg)"
        then obtain ce n ex
          where 2: "fst (WriteCatalogEntry ce n ex (cs, w)) = Some (NotImplementedException ?msg)"
          by blast
        from WriteCatalogEntry_messages [OF 2] show ?thesis by simp
      qed
    qed
    then show "undo_type e \<notin> {CATALOG_ENTRY, INSERT_TUPLE, DELETE_TUPLE, UPDATE_TUPLE}"
      unfolding unknown_kind .
  next
    assume "undo_type e \<notin> {CATALOG_ENTRY, INSERT_TUPLE, DELETE_TUPLE, UPDATE_TUPLE}"
    then obtain n where "e = Unrecognized n" unfolding unknown_kind by blast
    then show "fst (CommitEntry HAS_LOG e (cs, w)) = Some (NotImplementedException ?msg)"
      by simp
  qed
next
  show "raises_NotImplemented (CommitEntry False e (cs, w))
    \<longleftrightarrow> undo_type e \<notin> {CATALOG_ENTRY, INSERT_TUPLE, DELETE_TUPLE, UPDATE_TUPLE}"
    unfolding unknown_kind raises_NotImplemented_iff
    using CommitEntry_False_not_NIE [of e "(cs, w)"] by auto
next
  show "raises_NotImplemented (RevertCommit e (cs, w))
    \<longleftrightarrow> undo_type e \<notin> {CATALOG_ENTRY, INSERT_TUPLE, DELETE_TUPLE, UPDATE_TUPLE}"
    unfolding unknown_kind raises_NotImplemented_iff
    using RevertCommit_NIE [of e cs w] by auto
next
  show "raises_NotImplemented (CommitEntry True e (cs, w))
    \<longleftrightarrow> undo_type e \<notin> {CATALOG_ENTRY, INSERT_TUPLE, DELETE_TUPLE, UPDATE_TUPLE}
       \<or> (\<exists>entry n ex. e = CatalogChange entry n ex
            \<and> raises_NotImplemented (WriteCatalogEntry entry n ex (cs, w)))"
  proof
    assume "raises_NotImplemented (CommitEntry True e (cs, w))"
    then obtain m where "fst (CommitEntry True e (cs, w)) = Some (NotImplementedException m)"
      unfolding raises_NotImplemented_iff by blast
    from CommitEntry_True_NIE [OF this]
    show "undo_type e \<notin> {CATALOG_ENTRY, INSERT_TUPLE, DELETE_TUPLE, UPDATE_TUPLE}
       \<or> (\<exists>entry n ex. e = CatalogChange entry n ex
            \<and> raises_NotImplemented (WriteCatalogEntry entry n ex (cs, w)))"
      unfolding unknown_kind raises_NotImplemented_iff by blast
  next
    assume "undo_type e \<notin> {CATALOG_ENTRY, INSERT_TUPLE, DELETE_TUPLE, UPDATE_TUPLE}
       \<or> (\<exists>entry n ex. e = CatalogChange entry n ex
            \<and> raises_NotImplemented (WriteCatalogEntry entry n ex (cs, w)))"
    then consider n where "e = Unrecognized n"
      | entry n ex where "e = CatalogChange entry n ex"
          "raises_NotImplemented (WriteCatalogEntry entry n ex (cs, w))"
      unfolding unknown_kind by blast
    then show "raises_NotImplemented (CommitEntry True e (cs, w))"
    proof cases
      case 1
      then show ?thesis by simp
    next
      case 2
      from 2(2) obtain q where q: "entry_parent entry = Some q"
        unfolding WriteCatalogEntry_raises by blast
      from 2(2) show ?thesis
        unfolding 2(1) CommitEntry_catalog_step [OF q] WriteCatalogEntry_raises .
    qed
  qed
next
  show "cs_log cs \<noteq> None \<and> entry_parent ce = Some p \<longrightarrow>
        (raises_NotImplemented (WriteCatalogEntry ce n' ex' (cs, w))
         \<longleftrightarrow> \<not> entry_temporary ce \<and> \<not> entry_temporary p
            \<and> (entry_type p = DELETED_ENTRY \<and> entry_type ce \<notin> set handled_drop_types
               \<or> \<not> enumerated_parent_type (entry_type p)))"
    unfolding WriteCatalogEntry_raises by auto
qed


text \<open>
  C7 as stated fails: a temporary entry returns early from \<open>WriteCatalogEntry\<close>, so a
  dropped temporary index raises nothing although its type is outside the handled set;
  and \<open>CommitEntry\<close> with a log raises for a dropped index, a catalog change, which is
  one of the four known kinds.
\<close>

theorem C7_counterexample:
  "\<not> (raises_NotImplemented
         (WriteCatalogEntry dropped_temporary_index 0 [] (example_cs, example_world))
       \<longleftrightarrow> (entry_type dropped_parent = DELETED_ENTRY
              \<and> entry_type dropped_temporary_index \<notin> set handled_drop_types)
           \<or> \<not> enumerated_parent_type (entry_type dropped_parent))
   \<and> entry_parent dropped_temporary_index = Some dropped_parent
   \<and> undo_type (CatalogChange dropped_index 0 []) = CATALOG_ENTRY
   \<and> raises_NotImplemented
        (CommitEntry True (CatalogChange dropped_index 0 []) (example_cs, example_world))"
  by (simp add: WriteCatalogEntry_def dropped_temporary_index_def dropped_parent_def
      dropped_index_def handled_drop_types_def D_ASSERT_def and_then_def UpdateTimestamp_def
      call_def example_cs_def CommitState_new_def)

theorem C7_not_implemented_witness:
  "fst (CommitEntry True (Unrecognized 0) (example_cs, example_world))
      = Some (NotImplementedException ''UndoBuffer - don't know how to commit this type!'')
   \<and> raises_NotImplemented (RevertCommit (Unrecognized 0) (example_cs, example_world))
   \<and> \<not> raises_NotImplemented (RevertCommit (RowInsertion insert_A) (example_cs, example_world))
   \<and> cs_log example_cs \<noteq> None
   \<and> entry_parent dropped_index = Some dropped_parent
   \<and> raises_NotImplemented (WriteCatalogEntry dropped_index 0 [] (example_cs, example_world))
   \<and> entry_parent dropped_temporary_index = Some dropped_parent
   \<and> \<not> raises_NotImplemented
         (WriteCatalogEntry dropped_temporary_index 0 [] (example_cs, example_world))"
  using C7_not_implemented [of True "Unrecognized 0" example_cs example_world
      dropped_index dropped_parent 0 "[]"]
    C7_not_implemented [of True "RowInsertion insert_A" example_cs example_world
      dropped_temporary_index dropped_parent 0 "[]"]
  by (simp add: dropped_temporary_index_def dropped_parent_def dropped_index_def
      handled_drop_types_def example_cs_def CommitState_new_def)

lemma SwitchTable_eq:
  "cs_log cs = Some lg \<Longrightarrow>
   SwitchTable t new_op (cs, w) =
     (None, (cs\<lparr>current_table_info := Some t\<rparr>,
             w\<lparr>trace := trace w @
                (if current_table_info cs = Some t then []
                 else [Log (WAL_WriteSetTable (info_schema (table_infos w t))
                                              (info_table (table_infos w t)))])\<rparr>))"
  by (simp add: SwitchTable_def log_write_def and_then_def emit_def)

lemma WriteDelete_eq:
  "cs_log cs = Some lg \<Longrightarrow>
   WriteDelete info (cs, w) =
     (let chunk0 = (case delete_chunk cs of
                       None \<Rightarrow> Initialize [LOGICAL_ROW_TYPE]
                     | Some c \<Rightarrow> c);
          chunk = SetCardinality (unat (delete_count info))
                    (chunk0\<lparr>chunk_data := (chunk_data chunk0)
                       [0 := delete_row_ids info (chunk_data chunk0 ! 0)]\<rparr>)
      in (None, (cs\<lparr>current_table_info := Some (dt_info (delete_table info)),
                 delete_chunk := Some chunk\<rparr>,
             w\<lparr>trace := trace w @
                (if current_table_info cs = Some (dt_info (delete_table info)) then []
                 else [Log (WAL_WriteSetTable
                              (info_schema (table_infos w (dt_info (delete_table info))))
                              (info_table (table_infos w (dt_info (delete_table info)))))])
                @ [Log (WAL_WriteDelete chunk)]\<rparr>)))"
  by (simp add: WriteDelete_def D_ASSERT_def and_then_None SwitchTable_eq Let_def
      log_write_def emit_def)

lemma WriteDelete_no_log:
  "cs_log cs = None \<Longrightarrow> WriteDelete info (cs, w) = (Some (AssertionFailed ''log''), (cs, w))"
  by (simp add: WriteDelete_def D_ASSERT_def and_then_Some)

lemma WriteUpdate_no_log:
  "cs_log cs = None \<Longrightarrow> WriteUpdate info (cs, w) = (Some (AssertionFailed ''log''), (cs, w))"
  by (simp add: WriteUpdate_def D_ASSERT_def and_then_Some)

lemma WriteUpdate_eq:
  "cs_log cs = Some lg \<Longrightarrow>
   WriteUpdate info (cs, w) =
     (let column_data = useg_column_data (update_segment info);
          t = column_table_info column_data;
          chunk = Slice (update_tuples info) (update_N info)
            \<lparr>chunk_data =
               [FetchCommitted w (useg_addr (update_segment info)) (update_vector_index info)
                  (replicate STANDARD_VECTOR_SIZE None),
                update_row_ids info
                  (useg_start (update_segment info)
                     + update_vector_index info * of_nat STANDARD_VECTOR_SIZE)
                  (replicate STANDARD_VECTOR_SIZE None)],
             chunk_count = 0\<rparr>
      in (None, (cs\<lparr>current_table_info := Some t, update_chunk := Some chunk\<rparr>,
             w\<lparr>trace := trace w @
                (if current_table_info cs = Some t then []
                 else [Log (WAL_WriteSetTable (info_schema (table_infos w t))
                                              (info_table (table_infos w t)))])
                @ [Log (WAL_WriteUpdate chunk (column_idx column_data))]\<rparr>)))"
  by (simp add: WriteUpdate_def D_ASSERT_def and_then_None SwitchTable_eq Let_def
      log_write_def emit_def Initialize_def)





















lemma markers_Cons: "markers (ev # evs) = marker_of ev @ markers evs"
  by (simp add: markers_def)

lemma markers_Nil: "markers [] = []"
  by (simp add: markers_def)

lemma catalog_effect_no_marker: "is_catalog_effect ev \<Longrightarrow> marker_of ev = []"
proof (cases ev)
  case (Log r)
  assume "is_catalog_effect ev"
  with Log show ?thesis by (cases r) simp_all
qed simp_all

lemma catalog_effects_no_markers: "list_all is_catalog_effect evs \<Longrightarrow> markers evs = []"
  by (induction evs) (simp_all add: markers_def catalog_effect_no_marker)

lemma switch_table_cases: "switch_table w e = [] \<or> (\<exists>t. switch_table w e = [t])"
  by (cases e) simp_all

lemma switch_table_infos: "table_infos w' = table_infos w \<Longrightarrow> switch_table w' e = switch_table w e"
  by (cases e) simp_all

lemma switch_tables_infos:
  assumes "table_infos w' = table_infos w"
  shows "switch_tables w' es = switch_tables w es"
proof -
  have "switch_table w' = switch_table w"
    by (rule ext) (rule switch_table_infos [OF assms])
  then show ?thesis by (simp add: switch_tables_def)
qed

lemma table_name_infos: "table_infos w' = table_infos w \<Longrightarrow> table_name w' = table_name w"
  by (rule ext) (simp add: table_name_def)

lemma WriteDelete_shape:
  assumes "cs_log cs = Some lg"
  shows "\<exists>chunk. WriteDelete info (cs, w) =
     (None, (cs\<lparr>current_table_info := Some (dt_info (delete_table info)),
                 delete_chunk := Some chunk\<rparr>,
             w\<lparr>trace := trace w @
                (if current_table_info cs = Some (dt_info (delete_table info)) then []
                 else [Log (WAL_WriteSetTable
                              (info_schema (table_infos w (dt_info (delete_table info))))
                              (info_table (table_infos w (dt_info (delete_table info)))))])
                @ [Log (WAL_WriteDelete chunk)]\<rparr>))"
  unfolding WriteDelete_eq [OF assms] Let_def by (rule exI) (rule refl)

lemma WriteUpdate_shape:
  assumes "cs_log cs = Some lg"
  shows "\<exists>chunk. WriteUpdate info (cs, w) =
     (None, (cs\<lparr>current_table_info := Some (column_table_info (useg_column_data (update_segment info))),
                 update_chunk := Some chunk\<rparr>,
             w\<lparr>trace := trace w @
                (if current_table_info cs
                      = Some (column_table_info (useg_column_data (update_segment info))) then []
                 else [Log (WAL_WriteSetTable
                      (info_schema (table_infos w
                         (column_table_info (useg_column_data (update_segment info)))))
                      (info_table (table_infos w
                         (column_table_info (useg_column_data (update_segment info))))))])
                @ [Log (WAL_WriteUpdate chunk
                          (column_idx (useg_column_data (update_segment info))))]\<rparr>))"
  unfolding WriteUpdate_eq [OF assms] Let_def by (rule exI) (rule refl)

text \<open>An entry that switches tables: the marker, when due, comes right before its record.\<close>

lemma logged_entry_shape:
  assumes "cs_log cs = Some lg" and "switch_table w e = [t]"
  shows "\<exists>cs' w' r evs.
      CommitEntry True e (cs, w) = (None, (cs', w'))
    \<and> current_table_info cs' = Some t
    \<and> table_infos w' = table_infos w
    \<and> trace w' = trace w
        @ (if current_table_info cs = Some t then []
           else [Log (WAL_WriteSetTable (info_schema (table_infos w t))
                                        (info_table (table_infos w t)))])
        @ Log r # evs
    \<and> marker_of (Log r) = [] \<and> markers evs = []"
proof (cases e)
  case (RowDeletion info)
  with assms(2) have nt: "\<not> IsTemporary (table_infos w (dt_info (delete_table info)))"
    and t: "t = dt_info (delete_table info)"
    by (simp_all split: if_splits)
  from WriteDelete_shape [OF assms(1), of info w] obtain chunk where
    eq: "WriteDelete info (cs, w) =
     (None, (cs\<lparr>current_table_info := Some (dt_info (delete_table info)),
                 delete_chunk := Some chunk\<rparr>,
             w\<lparr>trace := trace w @
                (if current_table_info cs = Some (dt_info (delete_table info)) then []
                 else [Log (WAL_WriteSetTable
                              (info_schema (table_infos w (dt_info (delete_table info))))
                              (info_table (table_infos w (dt_info (delete_table info)))))])
                @ [Log (WAL_WriteDelete chunk)]\<rparr>))" ..
  show ?thesis
    unfolding RowDeletion CommitEntry.simps t
    apply (simp only: nt eq simp_thms if_True and_then_None fst_conv snd_conv)
    apply (rule exI [of _ "cs\<lparr>current_table_info := Some (dt_info (delete_table info)),
                 delete_chunk := Some chunk\<rparr>"])
    apply (rule exI [of _ "w\<lparr>trace := trace w @
                (if current_table_info cs = Some (dt_info (delete_table info)) then []
                 else [Log (WAL_WriteSetTable
                              (info_schema (table_infos w (dt_info (delete_table info))))
                              (info_table (table_infos w (dt_info (delete_table info)))))])
                @ [Log (WAL_WriteDelete chunk),
                   ChunkInfo_CommitDelete (delete_vinfo info) (commit_id cs)
                              (delete_rows info) (delete_count info)]\<rparr>"])
    apply (rule exI [of _ "WAL_WriteDelete chunk"])
    apply (rule exI [of _ "[ChunkInfo_CommitDelete (delete_vinfo info) (commit_id cs)
                              (delete_rows info) (delete_count info)]"])
    apply (simp add: call_def emit_def markers_Cons markers_Nil)
    done
next
  case (RowUpdate info)
  let ?t = "column_table_info (useg_column_data (update_segment info))"
  from RowUpdate assms(2) have nt: "\<not> IsTemporary (table_infos w ?t)"
    and t: "t = ?t"
    by (simp_all split: if_splits)
  from WriteUpdate_shape [OF assms(1), of info w] obtain chunk where
    eq: "WriteUpdate info (cs, w) =
     (None, (cs\<lparr>current_table_info := Some ?t, update_chunk := Some chunk\<rparr>,
             w\<lparr>trace := trace w @
                (if current_table_info cs = Some ?t then []
                 else [Log (WAL_WriteSetTable (info_schema (table_infos w ?t))
                                              (info_table (table_infos w ?t)))])
                @ [Log (WAL_WriteUpdate chunk
                          (column_idx (useg_column_data (update_segment info))))]\<rparr>))" ..
  show ?thesis
    unfolding RowUpdate CommitEntry.simps t
    apply (simp only: nt eq simp_thms if_True and_then_None fst_conv snd_conv)
    apply (rule exI [of _ "cs\<lparr>current_table_info := Some ?t, update_chunk := Some chunk\<rparr>"])
    apply (rule exI [of _ "w\<lparr>trace := trace w @
                (if current_table_info cs = Some ?t then []
                 else [Log (WAL_WriteSetTable (info_schema (table_infos w ?t))
                                              (info_table (table_infos w ?t)))])
                @ [Log (WAL_WriteUpdate chunk
                          (column_idx (useg_column_data (update_segment info))))],
              version_number := (version_number w)(update_addr info := commit_id cs)\<rparr>"])
    apply (rule exI [of _ "WAL_WriteUpdate chunk (column_idx (useg_column_data (update_segment info)))"])
    apply (rule exI [of _ "[]"])
    apply (simp add: set_version_number_def markers_Nil)
    done
next
  case (CatalogChange ce n ex)
  with assms(2) show ?thesis by simp
next
  case (RowInsertion info)
  with assms(2) show ?thesis by simp
next
  case (Unrecognized n)
  with assms(2) show ?thesis by simp
qed

lemma insert_step:
  assumes "CommitEntry True (RowInsertion info) (cs, w) = (None, (cs', w'))"
  shows "cs' = cs \<and> table_infos w' = table_infos w \<and> markers (trace w') = markers (trace w)"
proof (cases "IsTemporary (table_infos w (dt_info (append_table info)))")
  case True
  with assms have "cs' = cs" and "w' = emit (DataTable_CommitAppend (dt_addr (append_table info))
      (commit_id cs) (append_start_row info) (append_count info)) w"
    by (auto simp: and_then_None call_def)
  then show ?thesis by (simp add: emit_def markers_append markers_Cons markers_Nil)
next
  case False
  show ?thesis
  proof (cases "cs_log cs")
    case None
    with False assms show ?thesis by (simp add: and_then_Some)
  next
    case (Some lg)
    with False assms have "cs' = cs"
      and "w' = emit (DataTable_CommitAppend (dt_addr (append_table info))
          (commit_id cs) (append_start_row info) (append_count info))
        (emit (DataTable_WriteToLog (dt_addr (append_table info)) lg
          (append_start_row info) (append_count info)) w)"
      by (auto simp: and_then_None call_def)
    then show ?thesis by (simp add: emit_def markers_append markers_Cons markers_Nil)
  qed
qed


lemma same_outcome:
  "r = (None, (cs', w')) \<Longrightarrow> r = (None, (cs1, w1)) \<Longrightarrow> cs' = cs1 \<and> w' = w1"
  by simp

lemma unlogged_entry_step:
  assumes "CommitEntry True e (cs, w) = (None, (cs', w'))" and "switch_table w e = []"
  shows "cs' = cs \<and> table_infos w' = table_infos w \<and> markers (trace w') = markers (trace w)"
proof (cases e)
  case (CatalogChange ce n ex)
  show ?thesis
  proof (cases "entry_parent ce")
    case None
    with assms CatalogChange show ?thesis by (simp add: D_ASSERT_def and_then_Some)
  next
    case (Some p)
    from CommitEntry_catalog [OF Some, of True n ex cs w]
    obtain evs where t: "snd (CommitEntry True (CatalogChange ce n ex) (cs, w)) =
           (cs, w\<lparr>trace := trace w
              @ CatalogSet_UpdateTimestamp (entry_set ce) (entry_addr p) (commit_id cs)
              # (if entry_name ce \<noteq> entry_name p
                 then [CatalogSet_UpdateTimestamp (entry_set ce) (entry_addr ce) (commit_id cs)]
                 else [])
              @ evs\<rparr>)"
      and ev: "list_all is_catalog_effect evs"
      by blast
    from t assms(1) [unfolded CatalogChange] have "cs' = cs \<and> w' = w\<lparr>trace := trace w
              @ CatalogSet_UpdateTimestamp (entry_set ce) (entry_addr p) (commit_id cs)
              # (if entry_name ce \<noteq> entry_name p
                 then [CatalogSet_UpdateTimestamp (entry_set ce) (entry_addr ce) (commit_id cs)]
                 else [])
              @ evs\<rparr>"
      by simp
    with ev show ?thesis
      by (simp add: markers_append catalog_effects_no_markers markers_Cons markers_Nil)
  qed
next
  case (RowInsertion info)
  from insert_step [OF assms(1) [unfolded RowInsertion]] show ?thesis .
next
  case (RowDeletion info)
  with assms(2) have "IsTemporary (table_infos w (dt_info (delete_table info)))"
    by (simp split: if_splits)
  then have "CommitEntry True (RowDeletion info) (cs, w) =
      (None, (cs, emit (ChunkInfo_CommitDelete (delete_vinfo info)
      (commit_id cs) (delete_rows info) (delete_count info)) w))"
    by (simp add: and_then_None call_def)
  from same_outcome [OF assms(1) [unfolded RowDeletion] this] show ?thesis
    by (simp add: emit_def markers_append markers_Cons markers_Nil)
next
  case (RowUpdate info)
  with assms(2) have "IsTemporary (table_infos w
      (column_table_info (useg_column_data (update_segment info))))"
    by (simp split: if_splits)
  then have "CommitEntry True (RowUpdate info) (cs, w) =
      (None, (cs, w\<lparr>version_number := (version_number w)(update_addr info := commit_id cs)\<rparr>))"
    by (simp add: and_then_None set_version_number_def)
  from same_outcome [OF assms(1) [unfolded RowUpdate] this] show ?thesis
    by simp
next
  case (Unrecognized n)
  with assms(1) show ?thesis by simp
qed

lemma logged_needs_log:
  assumes "CommitEntry True e (cs, w) = (None, (cs', w'))" and "switch_table w e = [t]"
  shows "\<exists>lg. cs_log cs = Some lg"
proof (cases "cs_log cs")
  case None
  show ?thesis
  proof (cases e)
    case (RowDeletion info)
    with assms None show ?thesis
      by (simp add: WriteDelete_no_log and_then_Some split: if_splits)
  next
    case (RowUpdate info)
    with assms None show ?thesis
      by (simp add: WriteUpdate_no_log and_then_Some split: if_splits)
  next
    case (CatalogChange ce n ex)
    with assms(2) show ?thesis by simp
  next
    case (RowInsertion info)
    with assms(2) show ?thesis by simp
  next
    case (Unrecognized n)
    with assms(2) show ?thesis by simp
  qed
next
  case (Some lg)
  then show ?thesis by simp
qed

lemma remdups_adj_step:
  "length cur \<le> 1 \<Longrightarrow>
   drop (length cur) (remdups_adj (cur @ t # ts))
     = (if cur = [t] then [] else [t]) @ drop 1 (remdups_adj (t # ts))"
proof (cases cur)
  case Nil
  then show ?thesis
    using remdups_adj_Cons_alt [of t ts] by (simp add: drop_Suc)
next
  case (Cons c cs)
  assume "length cur \<le> 1"
  with Cons have "cur = [c]" by simp
  then show ?thesis
    using remdups_adj_Cons_alt [of t ts] by (auto simp: drop_Suc)
qed

lemma current_tables_short: "length (current_tables cs) \<le> 1"
  by (simp add: current_tables_def split: option.splits)

lemma current_tables_eq: "current_tables cs = [t] \<longleftrightarrow> current_table_info cs = Some t"
  by (simp add: current_tables_def split: option.splits)

lemma Commit_markers:
  assumes "Commit True es (cs, w) = (None, (cs', w'))"
  shows "markers (trace w') = markers (trace w)
     @ map (table_name w)
         (drop (length (current_tables cs)) (remdups_adj (current_tables cs @ switch_tables w es)))"
  using assms
proof (induction es arbitrary: cs w)
  case Nil
  then show ?case
    by (simp add: switch_tables_def current_tables_def split: option.splits)
next
  case (Cons e es)
  obtain r1 cs1 w1 where step: "CommitEntry True e (cs, w) = (r1, (cs1, w1))"
    by (metis prod.exhaust)
  with Cons.prems have r1: "r1 = None" and rest: "Commit True es (cs1, w1) = (None, (cs', w'))"
    by (simp_all split: option.splits)
  note step = step [unfolded r1]
  note IH = Cons.IH [OF rest]
  from switch_table_cases [of w e] show ?case
  proof
    assume sw: "switch_table w e = []"
    from unlogged_entry_step [OF step sw]
    have "cs1 = cs" and ti: "table_infos w1 = table_infos w"
      and m: "markers (trace w1) = markers (trace w)"
      by simp_all
    then show ?case
      using IH sw switch_tables_infos [OF ti] table_name_infos [OF ti]
      by (simp add: switch_tables_def)
  next
    assume "\<exists>t. switch_table w e = [t]"
    then obtain t where sw: "switch_table w e = [t]" ..
    from logged_needs_log [OF step sw] obtain lg where lg: "cs_log cs = Some lg" ..
    from logged_entry_shape [OF lg sw] step
    obtain r evs where cur: "current_table_info cs1 = Some t"
      and ti: "table_infos w1 = table_infos w"
      and tr: "trace w1 = trace w
        @ (if current_table_info cs = Some t then []
           else [Log (WAL_WriteSetTable (info_schema (table_infos w t))
                                        (info_table (table_infos w t)))])
        @ Log r # evs"
      and nm: "marker_of (Log r) = []" "markers evs = []"
      by auto
    have m: "markers (trace w1) = markers (trace w)
        @ map (table_name w) (if current_tables cs = [t] then [] else [t])"
      unfolding tr current_tables_eq
      using nm by (simp add: markers_append markers_Cons markers_Nil table_name_def)
    have c1: "current_tables cs1 = [t]"
      using cur by (simp add: current_tables_def)
    have sws: "switch_tables w (e # es) = t # switch_tables w es"
      using sw by (simp add: switch_tables_def)
    show ?case
      unfolding sws remdups_adj_step [OF current_tables_short]
      using IH m c1 switch_tables_infos [OF ti] table_name_infos [OF ti]
      by simp
  qed
qed

text \<open>
  C1 (amended). Committing a sequence of undo entries with a log, from a fresh
  \<open>CommitState\<close> and without an error: the markers \<open>CommitState\<close> writes are those of
  the row deletions and row updates on tables that are not temporary. It writes one
  marker for each such entry whose table differs from the table of the deletion or
  update logged before it (and one for the first), so the markers are the tables of
  these entries with adjacent repetitions removed, and no two consecutive markers name
  the same table. The marker, when one is due, is written right before the entry's
  record. (Row insertions and catalog changes neither write a marker through
  \<open>SwitchTable\<close> nor change the table \<open>CommitState\<close> takes the log to address.)
\<close>

theorem C1_switch_markers:
  assumes "Commit True es (CommitState_new cid lg, w) = (None, (cs', w'))"
  shows "markers (trace w') = markers (trace w)
           @ map (table_name w) (remdups_adj (switch_tables w es))
     \<and> distinct_adj (remdups_adj (switch_tables w es))
     \<and> (cs_log cs0 = Some lg0 \<and> switch_table w0 e = [t] \<longrightarrow>
          (\<exists>cs1 w1 r evs.
              CommitEntry True e (cs0, w0) = (None, (cs1, w1))
            \<and> current_table_info cs1 = Some t
            \<and> trace w1 = trace w0
                @ (if current_table_info cs0 = Some t then []
                   else [Log (WAL_WriteSetTable (info_schema (table_infos w0 t))
                                                (info_table (table_infos w0 t)))])
                @ Log r # evs
            \<and> marker_of (Log r) = [] \<and> markers evs = []))"
proof (intro conjI impI)
  have "current_tables (CommitState_new cid lg) = []"
    by (simp add: current_tables_def CommitState_new_def)
  with Commit_markers [OF assms]
  show "markers (trace w') = markers (trace w)
           @ map (table_name w) (remdups_adj (switch_tables w es))"
    by simp
next
  show "distinct_adj (remdups_adj (switch_tables w es))"
    by simp
next
  assume "cs_log cs0 = Some lg0 \<and> switch_table w0 e = [t]"
  then have a: "cs_log cs0 = Some lg0" and b: "switch_table w0 e = [t]"
    by simp_all
  from logged_entry_shape [OF a b]
  show "\<exists>cs1 w1 r evs.
              CommitEntry True e (cs0, w0) = (None, (cs1, w1))
            \<and> current_table_info cs1 = Some t
            \<and> trace w1 = trace w0
                @ (if current_table_info cs0 = Some t then []
                   else [Log (WAL_WriteSetTable (info_schema (table_infos w0 t))
                                                (info_table (table_infos w0 t)))])
                @ Log r # evs
            \<and> marker_of (Log r) = [] \<and> markers evs = []"
    by blast
qed

lemma WriteDelete_eq_log:
  "cs_log cs \<noteq> None \<Longrightarrow>
   WriteDelete info (cs, w) =
     (let chunk0 = (case delete_chunk cs of
                       None \<Rightarrow> Initialize [LOGICAL_ROW_TYPE]
                     | Some c \<Rightarrow> c);
          chunk = SetCardinality (unat (delete_count info))
                    (chunk0\<lparr>chunk_data := (chunk_data chunk0)
                       [0 := delete_row_ids info (chunk_data chunk0 ! 0)]\<rparr>)
      in (None, (cs\<lparr>current_table_info := Some (dt_info (delete_table info)),
                 delete_chunk := Some chunk\<rparr>,
             w\<lparr>trace := trace w @
                (if current_table_info cs = Some (dt_info (delete_table info)) then []
                 else [Log (WAL_WriteSetTable
                              (info_schema (table_infos w (dt_info (delete_table info))))
                              (info_table (table_infos w (dt_info (delete_table info)))))])
                @ [Log (WAL_WriteDelete chunk)]\<rparr>)))"
  using WriteDelete_eq [of cs _ info w] by (cases "cs_log cs") simp_all

lemma WriteUpdate_eq_log:
  "cs_log cs \<noteq> None \<Longrightarrow>
   WriteUpdate info (cs, w) =
     (let column_data = useg_column_data (update_segment info);
          t = column_table_info column_data;
          chunk = Slice (update_tuples info) (update_N info)
            \<lparr>chunk_data =
               [FetchCommitted w (useg_addr (update_segment info)) (update_vector_index info)
                  (replicate STANDARD_VECTOR_SIZE None),
                update_row_ids info
                  (useg_start (update_segment info)
                     + update_vector_index info * of_nat STANDARD_VECTOR_SIZE)
                  (replicate STANDARD_VECTOR_SIZE None)],
             chunk_count = 0\<rparr>
      in (None, (cs\<lparr>current_table_info := Some t, update_chunk := Some chunk\<rparr>,
             w\<lparr>trace := trace w @
                (if current_table_info cs = Some t then []
                 else [Log (WAL_WriteSetTable (info_schema (table_infos w t))
                                              (info_table (table_infos w t)))])
                @ [Log (WAL_WriteUpdate chunk (column_idx column_data))]\<rparr>)))"
  using WriteUpdate_eq [of cs _ info w] by (cases "cs_log cs") simp_all

text \<open>
  C1 as stated fails for row insertions, which never go through \<open>SwitchTable\<close>: in the
  log "delete on A, insert on B, delete on A" the second deletion follows an entry
  logged for table B, and \<open>CommitState\<close> writes its record with no marker before it.
\<close>

theorem C1_counterexample:
  "fst (Commit True mixed_log (example_cs, example_world)) = None
   \<and> markers (trace (snd (snd (Commit True mixed_log (example_cs, example_world)))))
       \<noteq> markers_by_spec example_world mixed_log
   \<and> markers (trace (snd (snd (Commit True mixed_log (example_cs, example_world)))))
       = [(''main'', ''A'')]
   \<and> markers_by_spec example_world mixed_log
       = [(''main'', ''A''), (''main'', ''B''), (''main'', ''A'')]
   \<and> (\<exists>c1 c2. filter is_log_effect
         (trace (snd (snd (Commit True mixed_log (example_cs, example_world)))))
       = [Log (WAL_WriteSetTable ''main'' ''A''), Log (WAL_WriteDelete c1),
          DataTable_WriteToLog 21 900 40 2, Log (WAL_WriteDelete c2)])"
  by (simp add: mixed_log_def WriteDelete_eq_log Let_def and_then_def call_def emit_def
      markers_append markers_Cons markers_Nil markers_by_spec_def table_name_def
      delete_A_def insert_B_def table_A_def table_B_def
      example_cs_def CommitState_new_def example_world_def example_infos_def IsTemporary_def)

theorem C1_switch_markers_witness:
  "fst (Commit True switching_log (CommitState_new 7 (Some 900), example_world)) = None
   \<and> switch_tables example_world switching_log = [10, 10, 20, 10]
   \<and> markers (trace (snd (snd (Commit True switching_log
                                   (CommitState_new 7 (Some 900), example_world)))))
       = [(''main'', ''A''), (''main'', ''B''), (''main'', ''A'')]
   \<and> cs_log example_cs = Some 900
   \<and> switch_table example_world (RowDeletion delete_B) = [20]
   \<and> (\<exists>cs1 w1 r. CommitEntry True (RowDeletion delete_B) (example_cs, example_world)
                     = (None, (cs1, w1))
        \<and> trace w1 = [Log (WAL_WriteSetTable ''main'' ''B''), Log r,
                       ChunkInfo_CommitDelete 22 7 [6] 1])"
proof -
  let ?s = "(CommitState_new 7 (Some 900), example_world)"
  have h: "fst (Commit True switching_log ?s) = None"
    by (simp add: switching_log_def WriteDelete_eq_log WriteUpdate_eq_log Let_def and_then_def
        call_def emit_def set_version_number_def
        delete_A_def delete_B_def update_A_def table_A_def table_B_def
        CommitState_new_def example_world_def example_infos_def IsTemporary_def)
  obtain r cs' w' where eq: "Commit True switching_log ?s = (r, (cs', w'))"
    by (metis prod.exhaust)
  with h have eq': "Commit True switching_log ?s = (None, (cs', w'))"
    by simp
  have a: "cs_log example_cs = Some 900"
    by (simp add: example_cs_def CommitState_new_def)
  have b: "switch_table example_world (RowDeletion delete_B) = [20]"
    by (simp add: delete_B_def table_B_def example_world_def example_infos_def IsTemporary_def)
  have c: "switch_tables example_world switching_log = [10, 10, 20, 10]"
    by (simp add: switch_tables_def switching_log_def delete_A_def delete_B_def update_A_def
        table_A_def table_B_def example_world_def example_infos_def IsTemporary_def)
  have d: "current_table_info example_cs = None" "commit_id example_cs = 7"
    by (simp_all add: example_cs_def CommitState_new_def)
  have n: "table_name example_world 10 = (''main'', ''A'')"
    "table_name example_world 20 = (''main'', ''B'')"
    by (simp_all add: table_name_def example_world_def example_infos_def)
  from C1_switch_markers [OF eq', of example_cs 900 example_world "RowDeletion delete_B" 20] a b
  have m: "markers (trace w') = markers (trace example_world)
           @ map (table_name example_world) (remdups_adj (switch_tables example_world switching_log))"
    and "\<exists>cs1 w1 r evs.
              CommitEntry True (RowDeletion delete_B) (example_cs, example_world) = (None, (cs1, w1))
            \<and> current_table_info cs1 = Some 20
            \<and> trace w1 = trace example_world
                @ (if current_table_info example_cs = Some 20 then []
                   else [Log (WAL_WriteSetTable (info_schema (table_infos example_world 20))
                                                (info_table (table_infos example_world 20)))])
                @ Log r # evs
            \<and> marker_of (Log r) = [] \<and> markers evs = []"
    by simp_all
  then obtain cs1 w1 r evs where
    e: "CommitEntry True (RowDeletion delete_B) (example_cs, example_world) = (None, (cs1, w1))"
    and t: "trace w1 = trace example_world
                @ (if current_table_info example_cs = Some 20 then []
                   else [Log (WAL_WriteSetTable (info_schema (table_infos example_world 20))
                                                (info_table (table_infos example_world 20)))])
                @ Log r # evs"
    by blast
  have w1: "trace w1 = Log (WAL_WriteSetTable ''main'' ''B'') # Log r # evs"
    unfolding t d by (simp add: example_world_def example_infos_def)
  have "\<exists>chunk. trace w1 = [Log (WAL_WriteSetTable ''main'' ''B''), Log (WAL_WriteDelete chunk),
                       ChunkInfo_CommitDelete 22 7 [6] 1]"
    using e
    by (simp add: WriteDelete_eq_log a d Let_def and_then_def call_def emit_def
        delete_B_def table_B_def example_world_def example_infos_def IsTemporary_def)
      (auto simp: example_cs_def CommitState_new_def)
  with e have f: "\<exists>cs1 w1 r. CommitEntry True (RowDeletion delete_B) (example_cs, example_world)
                     = (None, (cs1, w1))
        \<and> trace w1 = [Log (WAL_WriteSetTable ''main'' ''B''), Log r,
                       ChunkInfo_CommitDelete 22 7 [6] 1]"
    by blast
  have m': "markers (trace w') = [(''main'', ''A''), (''main'', ''B''), (''main'', ''A'')]"
  proof -
    have "markers (trace example_world) = []"
      by (simp add: markers_Nil example_world_def)
    then show ?thesis unfolding m c by (simp add: n)
  qed
  show ?thesis
    using h a b c f m' eq' by simp
qed

end
